theory Spec2Isabelle
  imports Complex_Main
begin

section \<open>Python values\<close>

text \<open>
  The values the framework handles are the primitives of a parsed request: \<open>None\<close>,
  booleans, unbounded integers, strings, lists and dictionaries. A dictionary is an
  association list in insertion order with pairwise distinct keys. Floats are not part of
  the model; where the source mentions \<open>0.0\<close> it is as a member of a set that also holds
  \<open>0\<close>, which is the same member under Python's equality.
\<close>

datatype pyval =
    PNone
  | PBool bool
  | PInt int
  | PStr string
  | PList "pyval list"
  | PDict "(pyval \<times> pyval) list"

datatype message = Message string "(string \<times> pyval) list"

datatype detail =
    DMsg message
  | DDict "(pyval \<times> detail) list"
  | DList "detail list"

datatype error =
    TypeError
  | ValueError
  | AttributeError
  | KeyError
  | ZeroDivisionError
  | AssertionError
  | PageNotAnInteger string
  | EmptyPage string
  | NotFound string
  | ValidationError detail

text \<open>Truthiness, as \<open>bool(v)\<close> and \<open>not v\<close> compute it.\<close>

fun py_truthy :: "pyval \<Rightarrow> bool" where
  "py_truthy PNone = False"
| "py_truthy (PBool b) = b"
| "py_truthy (PInt i) = (i \<noteq> 0)"
| "py_truthy (PStr s) = (s \<noteq> [])"
| "py_truthy (PList xs) = (xs \<noteq> [])"
| "py_truthy (PDict kvs) = (kvs \<noteq> [])"

text \<open>Lists and dictionaries are unhashable: using one as a set member or a key raises \<open>TypeError\<close>.\<close>

fun py_hashable :: "pyval \<Rightarrow> bool" where
  "py_hashable (PList xs) = False"
| "py_hashable (PDict kvs) = False"
| "py_hashable v = True"

text \<open>Booleans are integers: \<open>True == 1\<close> and \<open>False == 0\<close>.\<close>

fun py_num :: "pyval \<Rightarrow> int option" where
  "py_num (PBool b) = Some (if b then 1 else 0)"
| "py_num (PInt i) = Some i"
| "py_num v = None"

function py_eq :: "pyval \<Rightarrow> pyval \<Rightarrow> bool"
  and py_eq_list :: "pyval list \<Rightarrow> pyval list \<Rightarrow> bool"
  and py_has_item :: "pyval \<Rightarrow> pyval \<Rightarrow> (pyval \<times> pyval) list \<Rightarrow> bool"
  and py_sub_dict :: "(pyval \<times> pyval) list \<Rightarrow> (pyval \<times> pyval) list \<Rightarrow> bool" where
  "py_eq PNone w = (w = PNone)"
| "py_eq (PBool b) w = (py_num w = Some (if b then 1 else 0))"
| "py_eq (PInt i) w = (py_num w = Some i)"
| "py_eq (PStr s) w = (w = PStr s)"
| "py_eq (PList xs) w = (case w of PList ys \<Rightarrow> py_eq_list xs ys | _ \<Rightarrow> False)"
| "py_eq (PDict a) w =
     (case w of PDict b \<Rightarrow> length a = length b \<and> py_sub_dict a b | _ \<Rightarrow> False)"
| "py_eq_list [] ys = (ys = [])"
| "py_eq_list (x # xs) ys =
     (case ys of [] \<Rightarrow> False | y # ys' \<Rightarrow> py_eq x y \<and> py_eq_list xs ys')"
| "py_has_item k v [] = False"
| "py_has_item k v ((k', v') # b) = ((py_eq k k' \<and> py_eq v v') \<or> py_has_item k v b)"
| "py_sub_dict [] b = True"
| "py_sub_dict ((k, v) # a) b = (py_has_item k v b \<and> py_sub_dict a b)"
  by pat_completeness auto
termination
  by (relation "measure (\<lambda>x. case x of
        Inl (Inl (a, b)) \<Rightarrow> size a + size b
      | Inl (Inr (xs, ys)) \<Rightarrow> size_list size xs + size_list size ys
      | Inr (Inl (k, v, b)) \<Rightarrow> size k + size v + size_list (size_prod size size) b
      | Inr (Inr (a, b)) \<Rightarrow> size_list (size_prod size size) a + size_list (size_prod size size) b)")
    auto

text \<open>\<open>v in (s1, s2, ...)\<close> for a tuple of strings.\<close>

definition py_in_strings :: "pyval \<Rightarrow> string list \<Rightarrow> bool" where
  "py_in_strings v ss = list_ex (\<lambda>s. py_eq v (PStr s)) ss"

subsection \<open>Integer coercion\<close>

text \<open>
  \<open>int(s)\<close> for a string: surrounding ASCII whitespace is dropped, one sign is allowed,
  and the rest is a non-empty run of decimal digits in which single underscores may
  separate digits. Anything else raises \<open>ValueError\<close>.
\<close>

definition is_space :: "char \<Rightarrow> bool" where
  "is_space c = (c \<in> set [CHR '' '', CHR 0x09, CHR 0x0A, CHR 0x0B, CHR 0x0C, CHR 0x0D])"

definition digit_of :: "char \<Rightarrow> nat option" where
  "digit_of c =
     (let n = (of_char c :: nat) in if 48 \<le> n \<and> n \<le> 57 then Some (n - 48) else None)"

fun parse_digits :: "nat \<Rightarrow> bool \<Rightarrow> string \<Rightarrow> nat option" where
  "parse_digits acc after_digit [] = (if after_digit then Some acc else None)"
| "parse_digits acc after_digit (c # cs) =
     (if c = CHR ''_'' then (if after_digit then parse_digits acc False cs else None)
      else case digit_of c of
             None \<Rightarrow> None
           | Some d \<Rightarrow> parse_digits (10 * acc + d) True cs)"

definition strip :: "string \<Rightarrow> string" where
  "strip s = rev (dropWhile is_space (rev (dropWhile is_space s)))"

definition int_of_string :: "string \<Rightarrow> int option" where
  "int_of_string s =
     (case strip s of
        [] \<Rightarrow> None
      | c # cs \<Rightarrow>
          if c = CHR ''-'' then map_option (\<lambda>n. - int n) (parse_digits 0 False cs)
          else if c = CHR ''+'' then map_option int (parse_digits 0 False cs)
          else map_option int (parse_digits 0 False (c # cs)))"

fun py_int :: "pyval \<Rightarrow> error + int" where
  "py_int (PInt i) = Inr i"
| "py_int (PBool b) = Inr (if b then 1 else 0)"
| "py_int (PStr s) = (case int_of_string s of None \<Rightarrow> Inl ValueError | Some i \<Rightarrow> Inr i)"
| "py_int v = Inl TypeError"

subsection \<open>String conversion\<close>

function string_of_nat :: "nat \<Rightarrow> string" where
  "string_of_nat n =
     (if n < 10 then [''0123456789'' ! n]
      else string_of_nat (n div 10) @ [''0123456789'' ! (n mod 10)])"
  by pat_completeness auto
termination
  by (relation "measure id") auto

definition string_of_int :: "int \<Rightarrow> string" where
  "string_of_int i = (if i < 0 then CHR ''-'' # string_of_nat (nat (- i)) else string_of_nat (nat i))"

text \<open>
  \<open>repr\<close> of a string picks double quotes when the text holds a single quote and no
  double quote, escapes the quote in use, the backslash and the control characters, and
  leaves every other character as it is.
\<close>

definition repr_quote :: "string \<Rightarrow> char" where
  "repr_quote s = (if CHR 0x27 \<in> set s \<and> CHR 0x22 \<notin> set s then CHR 0x22 else CHR 0x27)"

definition repr_char :: "char \<Rightarrow> char \<Rightarrow> string" where
  "repr_char q c =
     (if c = q \<or> c = CHR 0x5C then [CHR 0x5C, c]
      else if c = CHR 0x09 then [CHR 0x5C, CHR ''t'']
      else if c = CHR 0x0A then [CHR 0x5C, CHR ''n'']
      else if c = CHR 0x0D then [CHR 0x5C, CHR ''r'']
      else if (of_char c :: nat) < 32 \<or> c = CHR 0x7F
        then [CHR 0x5C, CHR ''x'', ''0123456789abcdef'' ! ((of_char c :: nat) div 16),
              ''0123456789abcdef'' ! ((of_char c :: nat) mod 16)]
      else [c])"

definition repr_string :: "string \<Rightarrow> string" where
  "repr_string s = (let q = repr_quote s in q # concat (map (repr_char q) s) @ [q])"

fun join_comma :: "string list \<Rightarrow> string" where
  "join_comma [] = []"
| "join_comma [s] = s"
| "join_comma (s # t # ss) = s @ '', '' @ join_comma (t # ss)"

function py_repr :: "pyval \<Rightarrow> string"
  and py_repr_list :: "pyval list \<Rightarrow> string list"
  and py_repr_items :: "(pyval \<times> pyval) list \<Rightarrow> string list" where
  "py_repr PNone = ''None''"
| "py_repr (PBool b) = (if b then ''True'' else ''False'')"
| "py_repr (PInt i) = string_of_int i"
| "py_repr (PStr s) = repr_string s"
| "py_repr (PList xs) = ''['' @ join_comma (py_repr_list xs) @ '']''"
| "py_repr (PDict kvs) = ''{'' @ join_comma (py_repr_items kvs) @ ''}''"
| "py_repr_list [] = []"
| "py_repr_list (x # xs) = py_repr x # py_repr_list xs"
| "py_repr_items [] = []"
| "py_repr_items ((k, v) # kvs) = (py_repr k @ '': '' @ py_repr v) # py_repr_items kvs"
  by pat_completeness auto
termination
  by (relation "measure (\<lambda>x. case x of
        Inl v \<Rightarrow> size v
      | Inr (Inl xs) \<Rightarrow> size_list size xs
      | Inr (Inr kvs) \<Rightarrow> size_list (size_prod size size) kvs)")
    auto

definition py_str :: "pyval \<Rightarrow> string" where
  "py_str v = (case v of PStr s \<Rightarrow> s | _ \<Rightarrow> py_repr v)"

subsection \<open>Slices\<close>

text \<open>\<open>xs[lo:hi]\<close>: a negative bound counts from the end, and both bounds are clamped to the list.\<close>

definition slice_index :: "int \<Rightarrow> nat \<Rightarrow> nat" where
  "slice_index i n = (if i < 0 then nat (max 0 (int n + i)) else min (nat i) n)"

definition py_slice :: "'a list \<Rightarrow> int \<Rightarrow> int \<Rightarrow> 'a list" where
  "py_slice xs lo hi = drop (slice_index lo (length xs)) (take (slice_index hi (length xs)) xs)"

section \<open>Pagination (pagination.py)\<close>

subsection \<open>Paginator\<close>

text \<open>
  \<open>count\<close> is the public attribute that \<open>__init__\<close> sets to \<open>0\<close> and \<open>page\<close> overwrites;
  \<open>cached_num_pages\<close> and \<open>cached_count\<close> are the memo attributes \<open>_num_pages\<close> and \<open>_count\<close>.
  The object list is a list, so \<open>get_count\<close> lands on \<open>len\<close>.
\<close>

record 'a paginator =
  object_list :: "'a list"
  per_page :: int
  orphans :: int
  allow_empty_first_page :: bool
  count :: int
  cached_num_pages :: "int option"
  cached_count :: "int option"

record 'a page =
  page_object_list :: "'a list"
  number :: int

definition Paginator_init :: "'a list \<Rightarrow> int \<Rightarrow> int \<Rightarrow> bool \<Rightarrow> 'a paginator" where
  "Paginator_init xs pp orph allow =
     \<lparr>object_list = xs, per_page = pp, orphans = orph, allow_empty_first_page = allow,
      count = 0, cached_num_pages = None, cached_count = None\<rparr>"

definition get_count :: "'a paginator \<Rightarrow> int \<times> 'a paginator" where
  "get_count p =
     (case cached_count p of
        None \<Rightarrow> (let c = int (length (object_list p)) in (c, p\<lparr>cached_count := Some c\<rparr>))
      | Some c \<Rightarrow> (c, p))"

text \<open>
  \<open>int(ceil(hits / float(per_page)))\<close>. The quotient is computed on integers; the float
  quotient has the same ceiling for counts below \<open>2^53\<close>. Division by \<open>0.0\<close> raises.
\<close>

definition ceil_div :: "int \<Rightarrow> int \<Rightarrow> int" where
  "ceil_div a b = - ((- a) div b)"

definition num_pages :: "'a paginator \<Rightarrow> error + (int \<times> 'a paginator)" where
  "num_pages p =
     (case cached_num_pages p of
        Some n \<Rightarrow> Inr (n, p)
      | None \<Rightarrow>
          if count p = 0 \<and> \<not> allow_empty_first_page p
          then Inr (0, p\<lparr>cached_num_pages := Some 0\<rparr>)
          else let hits = max 1 (count p - orphans p) in
               if per_page p = 0 then Inl ZeroDivisionError
               else let n = ceil_div hits (per_page p) in
                    Inr (n, p\<lparr>cached_num_pages := Some n\<rparr>))"

definition validate_number :: "'a paginator \<Rightarrow> pyval \<Rightarrow> error + (int \<times> 'a paginator)" where
  "validate_number p num =
     (case py_int num of
        Inl e \<Rightarrow> Inl (PageNotAnInteger ''That page number is not an integer'')
      | Inr n \<Rightarrow>
          if n < 1 then Inl (EmptyPage ''That page number is less than 1'')
          else case num_pages p of
                 Inl e \<Rightarrow> Inl e
               | Inr (np, p') \<Rightarrow>
                   if n > np then
                     (if n = 1 \<and> allow_empty_first_page p' then Inr (n, p')
                      else Inl (EmptyPage ''That page contains no results''))
                   else Inr (n, p'))"

definition get_slice :: "'a paginator \<Rightarrow> int \<Rightarrow> int \<Rightarrow> 'a list" where
  "get_slice p bottom top0 = py_slice (object_list p) bottom top0"

text \<open>
  \<open>page\<close> returns the page together with the paginator as the call leaves it; the page's
  \<open>paginator\<close> attribute is that object.
\<close>

definition page :: "'a paginator \<Rightarrow> pyval \<Rightarrow> error + ('a page \<times> 'a paginator)" where
  "page p num =
     (let (c, p1) = get_count p;
          p2 = p1\<lparr>count := c\<rparr>
      in case validate_number p2 num of
           Inl e \<Rightarrow> Inl e
         | Inr (n, p3) \<Rightarrow>
             let bottom = (n - 1) * per_page p3;
                 top0 = bottom + per_page p3;
                 top' = (if top0 + orphans p3 \<ge> count p3 then count p3 else top0)
             in Inr (\<lparr>page_object_list = get_slice p3 bottom top', number = n\<rparr>, p3))"

subsection \<open>PageNumberPagination\<close>

record request =
  GET :: "string \<Rightarrow> string option"
  query_params :: "string \<Rightarrow> string option"

record page_number_pagination =
  page_size :: "int option"
  page_query_param :: string
  page_size_query_param :: "string option"
  max_page_size :: "int option"
  last_page_strings :: "string list"

text \<open>The class attributes as declared, with \<open>api_settings.PAGE_SIZE = 10\<close> from settings.py.\<close>

definition PageNumberPagination :: page_number_pagination where
  "PageNumberPagination =
     \<lparr>page_size = Some 10, page_query_param = ''page'', page_size_query_param = None,
      max_page_size = None, last_page_strings = [''last'']\<rparr>"

definition positive_int :: "string \<Rightarrow> bool \<Rightarrow> int option \<Rightarrow> error + int" where
  "positive_int integer_string strict cutoff =
     (case py_int (PStr integer_string) of
        Inl e \<Rightarrow> Inl e
      | Inr ret \<Rightarrow>
          if ret < 0 \<or> (ret = 0 \<and> strict) then Inl ValueError
          else case cutoff of
                 None \<Rightarrow> Inr ret
               | Some c \<Rightarrow> if c \<noteq> 0 then Inr (min ret c) else Inr ret)"

definition get_page_size :: "page_number_pagination \<Rightarrow> request \<Rightarrow> int option" where
  "get_page_size cfg req =
     (case page_size_query_param cfg of
        None \<Rightarrow> page_size cfg
      | Some param \<Rightarrow>
          if param = [] then page_size cfg
          else case query_params req param of
                 None \<Rightarrow> page_size cfg
               | Some s \<Rightarrow>
                   (case positive_int s True (max_page_size cfg) of
                      Inl e \<Rightarrow> page_size cfg
                    | Inr n \<Rightarrow> Some n))"

definition invalid_page_message :: "pyval \<Rightarrow> string \<Rightarrow> string" where
  "invalid_page_message page_number msg =
     ''Invalid page '' @ [CHR 0x22] @ py_str page_number @ [CHR 0x22] @ '': '' @ msg @ ''.''"

text \<open>
  The result is \<open>None\<close> when pagination is off, and otherwise the page kept in \<open>self.page\<close>
  with its paginator; the value the source returns is that page's \<open>object_list\<close>.
\<close>

definition paginate_object_list ::
  "page_number_pagination \<Rightarrow> 'a list \<Rightarrow> request \<Rightarrow> error + ('a page \<times> 'a paginator) option" where
  "paginate_object_list cfg xs req =
     (case get_page_size cfg req of
        None \<Rightarrow> Inr None
      | Some sz \<Rightarrow>
          if sz = 0 then Inr None
          else
            let paginator = Paginator_init xs sz 0 True;
                page_number = (case GET req (page_query_param cfg) of
                                 None \<Rightarrow> PInt 1
                               | Some s \<Rightarrow> PStr s)
            in case (if py_in_strings page_number (last_page_strings cfg)
                     then map_sum id (\<lambda>(n, p). (PInt n, p)) (num_pages paginator)
                     else Inr (page_number, paginator)) of
                 Inl e \<Rightarrow> Inl e
               | Inr (page_number', paginator') \<Rightarrow>
                   (case page paginator' page_number' of
                      Inl (PageNotAnInteger m) \<Rightarrow> Inl (NotFound (invalid_page_message page_number' m))
                    | Inl (EmptyPage m) \<Rightarrow> Inl (NotFound (invalid_page_message page_number' m))
                    | Inl e \<Rightarrow> Inl e
                    | Inr r \<Rightarrow> Inr (Some r)))"

section \<open>Validators (validators.py)\<close>

subsection \<open>Ordering and length of values\<close>

text \<open>
  \<open>a < b\<close>: numbers (booleans among them) compare by value, strings and lists
  lexicographically, a list by its first pair of unequal elements; any other pair of
  operands raises \<open>TypeError\<close>. \<open>a > b\<close> is \<open>b < a\<close>.
\<close>

fun str_lt :: "string \<Rightarrow> string \<Rightarrow> bool" where
  "str_lt [] [] = False"
| "str_lt [] (y # ys) = True"
| "str_lt (x # xs) [] = False"
| "str_lt (x # xs) (y # ys) =
     (if x = y then str_lt xs ys else (of_char x :: nat) < of_char y)"

function py_lt :: "pyval \<Rightarrow> pyval \<Rightarrow> error + bool"
  and py_lt_list :: "pyval list \<Rightarrow> pyval list \<Rightarrow> error + bool" where
  "py_lt a b =
     (case (py_num a, py_num b) of
        (Some i, Some j) \<Rightarrow> Inr (i < j)
      | _ \<Rightarrow>
         (case (a, b) of
            (PStr s, PStr t) \<Rightarrow> Inr (str_lt s t)
          | (PList xs, PList ys) \<Rightarrow> py_lt_list xs ys
          | _ \<Rightarrow> Inl TypeError))"
| "py_lt_list [] [] = Inr False"
| "py_lt_list [] (y # ys) = Inr True"
| "py_lt_list (x # xs) [] = Inr False"
| "py_lt_list (x # xs) (y # ys) = (if py_eq x y then py_lt_list xs ys else py_lt x y)"
  by pat_completeness auto
termination
  by (relation "measure (\<lambda>x. case x of
        Inl (a, b) \<Rightarrow> size a + size b
      | Inr (xs, ys) \<Rightarrow> size_list size xs + size_list size ys)")
    auto

declare py_lt.simps(1) [simp del]

definition py_gt :: "pyval \<Rightarrow> pyval \<Rightarrow> error + bool" where
  "py_gt a b = py_lt b a"

fun py_len :: "pyval \<Rightarrow> error + pyval" where
  "py_len (PStr s) = Inr (PInt (int (length s)))"
| "py_len (PList xs) = Inr (PInt (int (length xs)))"
| "py_len (PDict kvs) = Inr (PInt (int (length kvs)))"
| "py_len v = Inl TypeError"

subsection \<open>The validator classes\<close>

text \<open>
  The four subclasses of \<open>BaseValidator\<close>. (The base class compares by object identity,
  which values do not have.) The message templates are Russian texts in the source; each
  stands here under the name of its class's \<open>code\<close>, and a raised message is the template
  with the keyword arguments of \<open>str.format\<close>.
\<close>

datatype validator_class =
    MaxValueValidator
  | MinValueValidator
  | MinLengthValidator
  | MaxLengthValidator

record validator =
  vcls :: validator_class
  limit_value :: pyval
  message :: string

fun class_message :: "validator_class \<Rightarrow> string" where
  "class_message MaxValueValidator = ''max_value''"
| "class_message MinValueValidator = ''min_value''"
| "class_message MinLengthValidator = ''min_length''"
| "class_message MaxLengthValidator = ''max_length''"

definition Validator_init :: "validator_class \<Rightarrow> pyval \<Rightarrow> string option \<Rightarrow> validator" where
  "Validator_init c limit msg =
     \<lparr>vcls = c, limit_value = limit,
      message = (case msg of
                   None \<Rightarrow> class_message c
                 | Some m \<Rightarrow> if m = [] then class_message c else m)\<rparr>"

fun compare :: "validator_class \<Rightarrow> pyval \<Rightarrow> pyval \<Rightarrow> error + bool" where
  "compare MaxValueValidator a b = py_gt a b"
| "compare MinValueValidator a b = py_lt a b"
| "compare MinLengthValidator a b = py_lt a b"
| "compare MaxLengthValidator a b = py_gt a b"

fun clean :: "validator_class \<Rightarrow> pyval \<Rightarrow> error + pyval" where
  "clean MaxValueValidator x = Inr x"
| "clean MinValueValidator x = Inr x"
| "clean MinLengthValidator x = py_len x"
| "clean MaxLengthValidator x = py_len x"

text \<open>\<open>BaseValidator.__call__\<close>: \<open>Inr ()\<close> is the return without an exception.\<close>

definition validator_call :: "validator \<Rightarrow> pyval \<Rightarrow> error + unit" where
  "validator_call v val =
     (if \<not> py_truthy val then Inr ()
      else case clean (vcls v) val of
             Inl e \<Rightarrow> Inl e
           | Inr cleaned \<Rightarrow>
              (case compare (vcls v) cleaned (limit_value v) of
                 Inl e \<Rightarrow> Inl e
               | Inr violated \<Rightarrow>
                   if violated
                   then Inl (ValidationError
                          (DMsg (Message (message v) [(''limit_value'', limit_value v)])))
                   else Inr ()))"

section \<open>Fields (fields.py)\<close>

subsection \<open>Dictionaries and sets of values\<close>

text \<open>
  \<open>d[k] = v\<close> keeps the position and the key object of an entry whose key equals \<open>k\<close> and
  appends otherwise; \<open>d.get(k)\<close> raises \<open>TypeError\<close> on an unhashable key and gives
  \<open>None\<close> (or the default) for a missing one; \<open>v in s\<close> for a set raises \<open>TypeError\<close>
  on an unhashable \<open>v\<close>.
\<close>

fun py_dict_set :: "pyval \<Rightarrow> 'v \<Rightarrow> (pyval \<times> 'v) list \<Rightarrow> (pyval \<times> 'v) list" where
  "py_dict_set k v [] = [(k, v)]"
| "py_dict_set k v ((k', v') # d) =
     (if py_eq k' k then (k', v) # d else (k', v') # py_dict_set k v d)"

fun py_dict_find :: "(pyval \<times> 'v) list \<Rightarrow> pyval \<Rightarrow> 'v option" where
  "py_dict_find [] k = None"
| "py_dict_find ((k', v') # d) k = (if py_eq k' k then Some v' else py_dict_find d k)"

definition py_dict_get_default :: "(pyval \<times> pyval) list \<Rightarrow> pyval \<Rightarrow> pyval \<Rightarrow> error + pyval" where
  "py_dict_get_default d k dflt =
     (if py_hashable k
      then Inr (case py_dict_find d k of None \<Rightarrow> dflt | Some v \<Rightarrow> v)
      else Inl TypeError)"

definition py_dict_get :: "(pyval \<times> pyval) list \<Rightarrow> pyval \<Rightarrow> error + pyval" where
  "py_dict_get d k = py_dict_get_default d k PNone"

text \<open>\<open>OrderedDict(pairs)\<close>, filling the dictionary pair by pair.\<close>

fun OrderedDict :: "(pyval \<times> pyval) list \<Rightarrow> (pyval \<times> pyval) list \<Rightarrow> error + (pyval \<times> pyval) list" where
  "OrderedDict [] d = Inr d"
| "OrderedDict ((k, v) # pairs) d =
     (if py_hashable k then OrderedDict pairs (py_dict_set k v d) else Inl TypeError)"

definition py_in_set :: "pyval \<Rightarrow> pyval list \<Rightarrow> error + bool" where
  "py_in_set v members = (if py_hashable v then Inr (list_ex (py_eq v) members) else Inl TypeError)"

subsection \<open>Field objects\<close>

text \<open>
  An object that fields read attributes from is a primitive value (a dictionary among
  them) or an object with named attributes. Attributes that the built-in types carry
  themselves are not part of the model: \<open>getattr\<close> on a primitive finds nothing.
\<close>

datatype inst = Prim pyval | Obj "(string \<times> pyval) list"

text \<open>
  The field classes, each with the attributes its own \<open>__init__\<close> adds: \<open>max_length\<close>
  for \<open>CharField\<close>; \<open>choices\<close>, \<open>choice_strings_to_values\<close> and \<open>allow_blank\<close> for
  \<open>ChoiceField\<close>. \<open>DateTimeField\<close> and \<open>SerializerMethodField\<close> rest on code outside
  these sources (\<open>utils.parse_datetime\<close>, methods of user schemas) and are left out.
\<close>

datatype field_class =
    Field
  | IntegerField
  | SmallIntegerField
  | CharField pyval
  | ChoiceField "(pyval \<times> pyval) list" "(pyval \<times> pyval) list" bool
  | BooleanField

type_synonym ref = nat

text \<open>The attributes that \<open>Field.__init__\<close> sets; \<open>errors\<close> is \<open>_errors\<close>.\<close>

record field_attrs =
  name :: pyval
  initial_data :: pyval
  validated_data :: pyval
  errors :: detail
  required :: bool
  read_only :: bool
  default_val :: pyval
  validators :: "validator list"
  parent :: "ref option"
  partial :: bool

record field = field_attrs +
  cls :: field_class

text \<open>
  The keys of \<open>error_messages\<close>: the \<open>default_error_messages\<close> of \<open>Field\<close> and the
  \<open>field_error_messages\<close> of the class. The texts are Russian; a message raised by
  \<open>fail\<close> is the template under its key, not interpolated.
\<close>

fun error_messages :: "field_class \<Rightarrow> string list" where
  "error_messages (ChoiceField choices strings blank) = [''to_python'', ''required'', ''invalid_choice'']"
| "error_messages BooleanField = [''to_python'', ''required'', ''invalid'']"
| "error_messages c = [''to_python'', ''required'']"

definition fail :: "field_class \<Rightarrow> string \<Rightarrow> error" where
  "fail c key =
     (if key \<in> set (error_messages c) then ValidationError (DMsg (Message key [])) else KeyError)"

text \<open>The keyword arguments of \<open>Field.__init__\<close> and their defaults.\<close>

record init_kwargs =
  kw_name :: pyval
  kw_initial_data :: pyval
  kw_required :: bool
  kw_read_only :: bool
  kw_default :: pyval
  kw_partial :: bool

definition default_kwargs :: init_kwargs where
  "default_kwargs =
     \<lparr>kw_name = PNone, kw_initial_data = PNone, kw_required = True, kw_read_only = False,
      kw_default = PNone, kw_partial = False\<rparr>"

definition Field_init :: "field_class \<Rightarrow> init_kwargs \<Rightarrow> field" where
  "Field_init c kw =
     \<lparr>name = kw_name kw,
      initial_data = (if py_truthy (kw_initial_data kw) then kw_initial_data kw else PDict []),
      validated_data = PDict [],
      errors = DDict [],
      required = kw_required kw,
      read_only = kw_read_only kw,
      default_val = kw_default kw,
      validators = [],
      parent = None,
      partial = kw_partial kw,
      cls = c\<rparr>"

definition CharField_init :: "pyval \<Rightarrow> init_kwargs \<Rightarrow> field" where
  "CharField_init max_length kw =
     (let f = Field_init (CharField max_length) kw
      in if py_truthy max_length
         then f\<lparr>validators := validators f @ [Validator_init MaxLengthValidator max_length None]\<rparr>
         else f)"

definition choice_strings_to_values :: "(pyval \<times> pyval) list \<Rightarrow> (pyval \<times> pyval) list" where
  "choice_strings_to_values choices =
     fold (\<lambda>(key, label) d. py_dict_set (PStr (py_str key)) key d) choices []"

definition ChoiceField_init :: "(pyval \<times> pyval) list \<Rightarrow> bool \<Rightarrow> init_kwargs \<Rightarrow> error + field" where
  "ChoiceField_init choices allow_blank kw =
     (case OrderedDict choices [] of
        Inl e \<Rightarrow> Inl e
      | Inr d \<Rightarrow> Inr (Field_init (ChoiceField d (choice_strings_to_values d) allow_blank) kw))"

subsection \<open>Parsing and rendering\<close>

definition TRUE_VALUES :: "pyval list" where
  "TRUE_VALUES =
     [PStr ''t'', PStr ''T'', PStr ''true'', PStr ''True'', PStr ''TRUE'', PStr ''1'', PInt 1, PBool True]"

definition FALSE_VALUES :: "pyval list" where
  "FALSE_VALUES =
     [PStr ''f'', PStr ''F'', PStr ''false'', PStr ''False'', PStr ''FALSE'', PStr ''0'', PInt 0,
      PBool False]"

text \<open>
  \<open>BooleanField.to_internal_value\<close>. No method of these sources calls it:
  \<open>Field.run_validation\<close> parses through \<open>to_python\<close>.
\<close>

definition to_internal_value :: "pyval \<Rightarrow> error + pyval" where
  "to_internal_value data =
     (case py_in_set data TRUE_VALUES of
        Inl e \<Rightarrow> Inl (fail BooleanField ''invalid'')
      | Inr in_true \<Rightarrow>
          if in_true then Inr (PBool True)
          else case py_in_set data FALSE_VALUES of
                 Inl e \<Rightarrow> Inl (fail BooleanField ''invalid'')
               | Inr in_false \<Rightarrow>
                   if in_false then Inr (PBool False) else Inl (fail BooleanField ''invalid''))"

text \<open>
  \<open>to_python\<close>, by class: \<open>IntegerField\<close> and \<open>ChoiceField\<close> override it, every other
  class (\<open>BooleanField\<close> too) inherits the identity of \<open>Field\<close>.
\<close>

fun to_python :: "field_class \<Rightarrow> pyval \<Rightarrow> error + pyval" where
  "to_python IntegerField v =
     (case py_int v of Inl e \<Rightarrow> Inl (fail IntegerField ''to_python'') | Inr i \<Rightarrow> Inr (PInt i))"
| "to_python SmallIntegerField v =
     (case py_int v of Inl e \<Rightarrow> Inl (fail SmallIntegerField ''to_python'') | Inr i \<Rightarrow> Inr (PInt i))"
| "to_python (ChoiceField choices strings allow_blank) data =
     (if py_eq data (PStr []) \<and> allow_blank then Inr (PStr [])
      else case py_dict_get strings data of
             Inl e \<Rightarrow> Inl e
           | Inr by_string \<Rightarrow>
               if py_truthy by_string then Inr data
               else case py_dict_get choices data of
                      Inl e \<Rightarrow> Inl e
                    | Inr label \<Rightarrow>
                        if py_truthy label then Inr data
                        else Inl (ValidationError
                               (DMsg (Message ''invalid_choice'' [(''input'', data)]))))"
| "to_python c v = Inr v"

fun to_representation :: "field_class \<Rightarrow> pyval \<Rightarrow> error + pyval" where
  "to_representation IntegerField v = map_sum id PInt (py_int v)"
| "to_representation SmallIntegerField v = map_sum id PInt (py_int v)"
| "to_representation (CharField max_length) v = Inr (PStr (py_str v))"
| "to_representation (ChoiceField choices strings allow_blank) v =
     (if py_eq v (PStr []) \<or> py_eq v PNone then Inr v
      else py_dict_get_default strings v v)"
| "to_representation BooleanField v =
     (case py_in_set v TRUE_VALUES of
        Inl e \<Rightarrow> Inl e
      | Inr in_true \<Rightarrow>
          if in_true then Inr (PBool True)
          else case py_in_set v FALSE_VALUES of
                 Inl e \<Rightarrow> Inl e
               | Inr in_false \<Rightarrow> if in_false then Inr (PBool False) else Inr (PBool (py_truthy v)))"
| "to_representation Field v = Inr v"

text \<open>
  \<open>get_attribute\<close>: \<open>instance.get(name)\<close> on a dictionary, \<open>getattr(instance, name, None)\<close>
  on anything else, \<open>None\<close> itself included; \<open>getattr\<close> wants a string for the name.
\<close>

definition get_attribute :: "'a field_attrs_scheme \<Rightarrow> inst option \<Rightarrow> error + pyval" where
  "get_attribute f instance_obj =
     (case instance_obj of
        Some (Prim (PDict d)) \<Rightarrow> py_dict_get d (name f)
      | Some (Obj attrs) \<Rightarrow>
          (case name f of
             PStr n \<Rightarrow> Inr (case map_of attrs n of None \<Rightarrow> PNone | Some v \<Rightarrow> v)
           | _ \<Rightarrow> Inl TypeError)
      | _ \<Rightarrow> (case name f of PStr n \<Rightarrow> Inr PNone | _ \<Rightarrow> Inl TypeError))"

fun run_validators :: "validator list \<Rightarrow> pyval \<Rightarrow> error + unit" where
  "run_validators [] data = Inr ()"
| "run_validators (v # vs) data =
     (case validator_call v data of Inl e \<Rightarrow> Inl e | Inr u \<Rightarrow> run_validators vs data)"

section \<open>Serializers (serializers.py)\<close>

subsection \<open>Classes, objects and the store\<close>

text \<open>
  A schema class carries \<open>_declared_fields\<close>, the ordered mapping from names to the
  \<open>Field\<close> objects written in the class body (the metaclass collects it when the class
  is created), and \<open>_meta\<close>, the \<open>Options\<close> of its \<open>Meta\<close> (absent without a \<open>Meta\<close>).
  Objects live in a store and are named by reference: the declared fields are objects of
  the class, and a bound field points back to its parent serializer.
\<close>

record serializer_meta =
  meta_fields :: "string list"
  meta_validators :: "(string \<times> validator list) list"

record serializer_class =
  declared_fields :: "(string \<times> ref) list"
  meta :: "serializer_meta option"

text \<open>\<open>bound_fields\<close> is the attribute \<open>fields\<close>, \<open>cached_data\<close> the attribute \<open>_data\<close>.\<close>

record serializer = field_attrs +
  sclass :: serializer_class
  instance_obj :: "inst option"
  bound_fields :: "(string \<times> ref option) list"
  writable_fields :: "(pyval \<times> ref) list"
  cached_data :: "pyval option"

record store =
  field_objs :: "ref \<Rightarrow> field"
  serializer_objs :: "ref \<Rightarrow> serializer"
  next_ref :: ref

definition update_field :: "ref \<Rightarrow> (field \<Rightarrow> field) \<Rightarrow> store \<Rightarrow> store" where
  "update_field r upd h = h\<lparr>field_objs := (field_objs h)(r := upd (field_objs h r))\<rparr>"

definition update_serializer :: "ref \<Rightarrow> (serializer \<Rightarrow> serializer) \<Rightarrow> store \<Rightarrow> store" where
  "update_serializer r upd h = h\<lparr>serializer_objs := (serializer_objs h)(r := upd (serializer_objs h r))\<rparr>"

subsection \<open>Binding and validation of a field\<close>

definition bind :: "ref \<Rightarrow> ref \<Rightarrow> string \<Rightarrow> store \<Rightarrow> store" where
  "bind self parent_ref field_name h =
     update_field self
       (\<lambda>f. f\<lparr>parent := Some parent_ref, name := PStr field_name,
              partial := partial (serializer_objs h parent_ref)\<rparr>) h"

text \<open>
  \<open>Field.run_validation\<close>. \<open>not self.parent\<close> holds exactly for an unbound field, a
  serializer object being truthy; \<open>self.parent.instance\<close> is read through the store.
\<close>

definition Field_run_validation :: "store \<Rightarrow> field \<Rightarrow> pyval \<Rightarrow> error + pyval" where
  "Field_run_validation h f data =
     (if \<not> py_truthy data \<and> required f \<and> parent f = None then Inl (fail (cls f) ''required'')
      else if \<not> py_truthy data \<and> partial f then
        (case parent f of
           None \<Rightarrow> Inl AttributeError
         | Some p \<Rightarrow> get_attribute f (instance_obj (serializer_objs h p)))
      else if \<not> py_truthy data \<and> \<not> required f then Inr data
      else case to_python (cls f) data of
             Inl e \<Rightarrow> Inl e
           | Inr parsed \<Rightarrow>
              (case run_validators (validators f) parsed of
                 Inl e \<Rightarrow> Inl e
               | Inr u \<Rightarrow> Inr parsed))"

subsection \<open>Construction of a serializer\<close>

fun od_set :: "'k \<Rightarrow> 'v \<Rightarrow> ('k \<times> 'v) list \<Rightarrow> ('k \<times> 'v) list" where
  "od_set k v [] = [(k, v)]"
| "od_set k v ((k', v') # d) = (if k' = k then (k', v) # d else (k', v') # od_set k v d)"

definition build_field :: "ref \<Rightarrow> string \<Rightarrow> store \<Rightarrow> ref option \<times> store" where
  "build_field self field_name h =
     (case map_of (declared_fields (sclass (serializer_objs h self))) field_name of
        None \<Rightarrow> (None, h)
      | Some r \<Rightarrow> (Some r, bind r self field_name h))"

fun get_fields_loop ::
  "ref \<Rightarrow> string list \<Rightarrow> (string \<times> ref option) list \<Rightarrow> store \<Rightarrow> (string \<times> ref option) list \<times> store" where
  "get_fields_loop self [] acc h = (acc, h)"
| "get_fields_loop self (n # ns) acc h =
     (case build_field self n h of (f, h') \<Rightarrow> get_fields_loop self ns (od_set n f acc) h')"

definition get_fields :: "ref \<Rightarrow> store \<Rightarrow> error + ((string \<times> ref option) list \<times> store)" where
  "get_fields self h =
     (case meta (sclass (serializer_objs h self)) of
        None \<Rightarrow> Inl AttributeError
      | Some m \<Rightarrow> Inr (get_fields_loop self (meta_fields m) [] h))"

text \<open>
  \<open>get_writable_fields\<close>, keyed by \<open>field.name\<close> (a string once bound); reading
  \<open>read_only\<close> off an undeclared name's \<open>None\<close> raises \<open>AttributeError\<close>.
\<close>

fun get_writable_fields_loop ::
  "store \<Rightarrow> (string \<times> ref option) list \<Rightarrow> (pyval \<times> ref) list \<Rightarrow> error + (pyval \<times> ref) list" where
  "get_writable_fields_loop h [] acc = Inr acc"
| "get_writable_fields_loop h ((n, None) # rest) acc = Inl AttributeError"
| "get_writable_fields_loop h ((n, Some r) # rest) acc =
     (let f = field_objs h r
      in if (if read_only f then py_truthy (default_val f) else True)
         then get_writable_fields_loop h rest (py_dict_set (name f) r acc)
         else get_writable_fields_loop h rest acc)"

definition get_writable_fields :: "ref \<Rightarrow> store \<Rightarrow> error + (pyval \<times> ref) list" where
  "get_writable_fields self h = get_writable_fields_loop h (bound_fields (serializer_objs h self)) []"

fun set_validators_loop ::
  "(pyval \<times> ref) list \<Rightarrow> (string \<times> validator list) list \<Rightarrow> store \<Rightarrow> error + store" where
  "set_validators_loop wfields [] h = Inr h"
| "set_validators_loop wfields ((field_name, vs) # rest) h =
     (case py_dict_find wfields (PStr field_name) of
        None \<Rightarrow> Inl KeyError
      | Some r \<Rightarrow> set_validators_loop wfields rest (update_field r (\<lambda>f. f\<lparr>validators := vs\<rparr>) h))"

text \<open>
  \<open>Serializer.__init__\<close>, with \<open>BaseSerializer.__init__\<close> and \<open>Field.__init__\<close> before it:
  the new object takes the next free reference; the result is that reference and the
  store after the call.
\<close>

definition Serializer_init ::
  "serializer_class \<Rightarrow> inst option \<Rightarrow> init_kwargs \<Rightarrow> store \<Rightarrow> error + (ref \<times> store)" where
  "Serializer_init c inst kw h =
     (let self = next_ref h;
          s0 = \<lparr>name = kw_name kw,
                initial_data = (if py_truthy (kw_initial_data kw) then kw_initial_data kw else PDict []),
                validated_data = PDict [],
                errors = DDict [],
                required = kw_required kw,
                read_only = kw_read_only kw,
                default_val = kw_default kw,
                validators = [],
                parent = None,
                partial = kw_partial kw,
                sclass = c,
                instance_obj = inst,
                bound_fields = [],
                writable_fields = [],
                cached_data = None\<rparr>;
          h1 = h\<lparr>serializer_objs := (serializer_objs h)(self := s0), next_ref := Suc self\<rparr>
      in case get_fields self h1 of
           Inl e \<Rightarrow> Inl e
         | Inr (fs, h2) \<Rightarrow>
            (let h3 = update_serializer self (\<lambda>s. s\<lparr>bound_fields := fs\<rparr>) h2
             in case get_writable_fields self h3 of
                  Inl e \<Rightarrow> Inl e
                | Inr wfields \<Rightarrow>
                   (let h4 = update_serializer self (\<lambda>s. s\<lparr>writable_fields := wfields\<rparr>) h3
                    in case meta c of
                         None \<Rightarrow> Inl AttributeError
                       | Some m \<Rightarrow>
                          (case set_validators_loop wfields (meta_validators m) h4 of
                             Inl e \<Rightarrow> Inl e
                           | Inr h5 \<Rightarrow> Inr (self, h5)))))"

subsection \<open>Validation\<close>

fun detail_truthy :: "detail \<Rightarrow> bool" where
  "detail_truthy (DMsg m) = True"
| "detail_truthy (DDict kvs) = (kvs \<noteq> [])"
| "detail_truthy (DList ds) = (ds \<noteq> [])"

text \<open>
  The loop of \<open>BaseSerializer.run_validation\<close> over \<open>writable_fields\<close>: a
  \<open>ValidationError\<close> of a field goes into \<open>errors\<close> under the field's key, any other
  exception leaves the loop.
\<close>

fun run_validation_loop ::
  "store \<Rightarrow> (pyval \<times> ref) list \<Rightarrow> (pyval \<times> pyval) list \<Rightarrow> (pyval \<times> pyval) list \<Rightarrow>
   (pyval \<times> detail) list \<Rightarrow> error + ((pyval \<times> pyval) list \<times> (pyval \<times> detail) list)" where
  "run_validation_loop h [] data ret errs = Inr (ret, errs)"
| "run_validation_loop h ((key, r) # rest) data ret errs =
     (case py_dict_get data key of
        Inl e \<Rightarrow> Inl e
      | Inr val \<Rightarrow>
         (case Field_run_validation h (field_objs h r) val of
            Inl (ValidationError d) \<Rightarrow> run_validation_loop h rest data ret (py_dict_set key d errs)
          | Inl e \<Rightarrow> Inl e
          | Inr v \<Rightarrow>
              if py_hashable (name (field_objs h r))
              then run_validation_loop h rest data (py_dict_set (name (field_objs h r)) v ret) errs
              else Inl TypeError))"

definition BaseSerializer_run_validation :: "ref \<Rightarrow> pyval \<Rightarrow> store \<Rightarrow> (error + pyval) \<times> store" where
  "BaseSerializer_run_validation self data h =
     (let d = (case data of PDict kvs \<Rightarrow> kvs | _ \<Rightarrow> [])
      in case run_validation_loop h (writable_fields (serializer_objs h self)) d [] [] of
           Inl e \<Rightarrow> (Inl e, h)
         | Inr (ret, errs) \<Rightarrow>
            (let h' = update_serializer self (\<lambda>s. s\<lparr>errors := DDict errs\<rparr>) h
             in if errs \<noteq> [] then (Inl (ValidationError (DDict errs)), h')
                else (Inr (PDict ret), h')))"

definition is_valid :: "ref \<Rightarrow> bool \<Rightarrow> store \<Rightarrow> (error + bool) \<times> store" where
  "is_valid self raise_exception h =
     (let (raised, h1) =
            (if \<not> py_truthy (validated_data (serializer_objs h self)) then
               (case BaseSerializer_run_validation self (initial_data (serializer_objs h self)) h of
                  (Inr v, h') \<Rightarrow> (None, update_serializer self (\<lambda>s. s\<lparr>validated_data := v\<rparr>) h')
                | (Inl (ValidationError d), h') \<Rightarrow>
                    (None, update_serializer self (\<lambda>s. s\<lparr>errors := d\<rparr>) h')
                | (Inl e, h') \<Rightarrow> (Some e, h'))
             else (None, h))
      in case raised of
           Some e \<Rightarrow> (Inl e, h1)
         | None \<Rightarrow>
             if detail_truthy (errors (serializer_objs h1 self)) \<and> raise_exception
             then (Inl (ValidationError (errors (serializer_objs h1 self))), h1)
             else (Inr (\<not> detail_truthy (errors (serializer_objs h1 self))), h1))"

subsection \<open>Representation\<close>

fun to_representation_loop ::
  "store \<Rightarrow> (string \<times> ref option) list \<Rightarrow> inst option \<Rightarrow> (pyval \<times> pyval) list \<Rightarrow>
   error + (pyval \<times> pyval) list" where
  "to_representation_loop h [] inst ret = Inr ret"
| "to_representation_loop h ((n, None) # rest) inst ret = Inl AttributeError"
| "to_representation_loop h ((n, Some r) # rest) inst ret =
     (case get_attribute (field_objs h r) inst of
        Inl e \<Rightarrow> Inl e
      | Inr attribute \<Rightarrow>
         (case (if py_truthy attribute then to_representation (cls (field_objs h r)) attribute
                else Inr attribute) of
            Inl e \<Rightarrow> Inl e
          | Inr v \<Rightarrow>
              if py_hashable (name (field_objs h r))
              then to_representation_loop h rest inst (py_dict_set (name (field_objs h r)) v ret)
              else Inl TypeError))"

definition Serializer_to_representation :: "store \<Rightarrow> ref \<Rightarrow> inst option \<Rightarrow> error + pyval" where
  "Serializer_to_representation h self inst =
     map_sum id PDict (to_representation_loop h (bound_fields (serializer_objs h self)) inst [])"

text \<open>The property \<open>data\<close>; the value is kept in \<open>_data\<close> once computed.\<close>

definition data_property :: "ref \<Rightarrow> store \<Rightarrow> (error + pyval) \<times> store" where
  "data_property self h =
     (let s = serializer_objs h self
      in if py_truthy (initial_data s) \<and> validated_data s = PNone then (Inl AssertionError, h)
         else case cached_data s of
                Some d \<Rightarrow> (Inr d, h)
              | None \<Rightarrow>
                 (case (if instance_obj s \<noteq> None \<and> \<not> detail_truthy (errors s)
                        then Serializer_to_representation h self (instance_obj s)
                        else if py_truthy (validated_data s) \<and> \<not> detail_truthy (errors s)
                        then Serializer_to_representation h self (Some (Prim (validated_data s)))
                        else Inr (initial_data s)) of
                    Inl e \<Rightarrow> (Inl e, h)
                  | Inr d \<Rightarrow> (Inr d, update_serializer self (\<lambda>s. s\<lparr>cached_data := Some d\<rparr>) h)))"

subsection \<open>ListSerializer\<close>

text \<open>
  \<open>BaseSerializer.run_validation\<close> is declared \<open>async def\<close>: a call of it builds a
  coroutine object and runs none of the body; the body runs, and can raise, when the
  coroutine is awaited. \<open>ListSerializer.run_validation\<close> is a plain \<open>def\<close> that calls
  the child's method and does not await the result.
\<close>

datatype coroutine = Coroutine ref pyval

definition call_run_validation :: "ref \<Rightarrow> pyval \<Rightarrow> error + coroutine" where
  "call_run_validation serializer_ref data = Inr (Coroutine serializer_ref data)"

fun await :: "coroutine \<Rightarrow> store \<Rightarrow> (error + pyval) \<times> store" where
  "await (Coroutine serializer_ref data) h = BaseSerializer_run_validation serializer_ref data h"

record list_serializer = field_attrs +
  child :: ref
  allow_empty :: bool

definition ListSerializer_init :: "ref \<Rightarrow> bool \<Rightarrow> init_kwargs \<Rightarrow> list_serializer" where
  "ListSerializer_init child_ref allow kw =
     \<lparr>name = kw_name kw,
      initial_data = (if py_truthy (kw_initial_data kw) then kw_initial_data kw else PDict []),
      validated_data = PDict [],
      errors = DDict [],
      required = kw_required kw,
      read_only = kw_read_only kw,
      default_val = kw_default kw,
      validators = [],
      parent = None,
      partial = kw_partial kw,
      child = child_ref,
      allow_empty = allow\<rparr>"

text \<open>\<open>for item in data\<close>: the elements of a list, the keys of a dictionary, the characters of a string.\<close>

fun py_iter :: "pyval \<Rightarrow> error + pyval list" where
  "py_iter (PList xs) = Inr xs"
| "py_iter (PDict kvs) = Inr (map fst kvs)"
| "py_iter (PStr s) = Inr (map (\<lambda>c. PStr [c]) s)"
| "py_iter v = Inl TypeError"

fun ListSerializer_loop ::
  "ref \<Rightarrow> pyval list \<Rightarrow> coroutine list \<Rightarrow> detail list \<Rightarrow> error + (coroutine list \<times> detail list)" where
  "ListSerializer_loop child_ref [] ret errs = Inr (ret, errs)"
| "ListSerializer_loop child_ref (item # items) ret errs =
     (case call_run_validation child_ref item of
        Inl (ValidationError d) \<Rightarrow> ListSerializer_loop child_ref items ret (errs @ [d])
      | Inl e \<Rightarrow> Inl e
      | Inr validated \<Rightarrow> ListSerializer_loop child_ref items (ret @ [validated]) (errs @ [DDict []]))"

definition ListSerializer_run_validation :: "list_serializer \<Rightarrow> pyval \<Rightarrow> error + coroutine list" where
  "ListSerializer_run_validation ls data =
     (case py_iter data of
        Inl e \<Rightarrow> Inl e
      | Inr items \<Rightarrow>
         (case ListSerializer_loop (child ls) items [] [] of
            Inl e \<Rightarrow> Inl e
          | Inr (ret, errs) \<Rightarrow>
              if list_ex detail_truthy errs then Inl (ValidationError (DList errs)) else Inr ret))"

section \<open>Properties of pagination\<close>

text \<open>
  The page count as the specification words it: \<open>0\<close> for an empty collection when an
  empty first page is not allowed, and otherwise the ceiling of
  \<open>max(1, count - orphans) / per_page\<close>, taken over the reals.
\<close>

definition spec_num_pages :: "int \<Rightarrow> int \<Rightarrow> int \<Rightarrow> bool \<Rightarrow> int" where
  "spec_num_pages cnt orph pp allow =
     (if cnt = 0 \<and> \<not> allow then 0
      else \<lceil>real_of_int (max 1 (cnt - orph)) / real_of_int pp\<rceil>)"

lemma ceil_div_ceiling: "ceil_div a b = \<lceil>real_of_int a / real_of_int b\<rceil>"
  by (simp add: ceil_div_def ceiling_divide_eq_div)

lemma num_pages_uncached:
  "cached_num_pages p = None \<Longrightarrow> per_page p \<noteq> 0 \<Longrightarrow>
   num_pages p =
     Inr (spec_num_pages (count p) (orphans p) (per_page p) (allow_empty_first_page p),
          p\<lparr>cached_num_pages :=
              Some (spec_num_pages (count p) (orphans p) (per_page p) (allow_empty_first_page p))\<rparr>)"
  by (simp add: num_pages_def spec_num_pages_def ceil_div_ceiling Let_def)

lemma num_pages_cached: "cached_num_pages p = Some n \<Longrightarrow> num_pages p = Inr (n, p)"
  by (simp add: num_pages_def)




lemma py_slice_nonneg:
  "0 \<le> lo \<Longrightarrow> 0 \<le> hi \<Longrightarrow> py_slice xs lo hi = drop (nat lo) (take (nat hi) xs)"
  by (auto simp: py_slice_def slice_index_def min_def)

text \<open>
  A paginator fresh from \<open>__init__\<close>, asked for a page whose number is within the page
  count of the collection: the count is fetched first, so the page count is taken from
  the real length.
\<close>

lemma page_fresh:
  assumes "pp \<noteq> 0" and "py_int num = Inr n" and "1 \<le> n"
    and "n \<le> spec_num_pages (int (length xs)) orph pp allow"
  shows "page (Paginator_init xs pp orph allow) num =
     Inr (\<lparr>page_object_list =
             py_slice xs ((n - 1) * pp)
               (if int (length xs) \<le> (n - 1) * pp + pp + orph then int (length xs)
                else (n - 1) * pp + pp),
           number = n\<rparr>,
          \<lparr>object_list = xs, per_page = pp, orphans = orph, allow_empty_first_page = allow,
           count = int (length xs),
           cached_num_pages = Some (spec_num_pages (int (length xs)) orph pp allow),
           cached_count = Some (int (length xs))\<rparr>)"
proof -
  let ?p2 = "\<lparr>object_list = xs, per_page = pp, orphans = orph, allow_empty_first_page = allow,
           count = int (length xs), cached_num_pages = None,
           cached_count = Some (int (length xs))\<rparr>"
  let ?np = "spec_num_pages (int (length xs)) orph pp allow"
  have np: "num_pages ?p2 = Inr (?np, ?p2\<lparr>cached_num_pages := Some ?np\<rparr>)"
    using num_pages_uncached [of ?p2] assms(1) by simp
  have vn: "validate_number ?p2 num = Inr (n, ?p2\<lparr>cached_num_pages := Some ?np\<rparr>)"
    using assms(2,3,4) by (simp add: validate_number_def np)
  show ?thesis
    by (simp add: page_def Paginator_init_def get_count_def Let_def vn get_slice_def)
qed

text \<open>
  A paginator whose first use is \<open>page(number)\<close>: the count is fetched before the number
  is validated, so for a number within the page count of the collection the slice runs
  from \<open>bottom = (number - 1) * per_page\<close> to \<open>top = bottom + per_page\<close>, with \<open>top\<close>
  clamped to the count whenever \<open>top + orphans\<close> reaches it, and \<open>num_pages\<close> read
  afterwards is the page count of the collection. Whatever the state, an unmemoised
  \<open>num_pages\<close> is the formula over the \<open>count\<close> attribute.
\<close>

lemma page_first_slice_bounds_and_num_pages:
  "(0 < pp \<and> 0 \<le> orph \<and> py_int num = Inr n \<and> 1 \<le> n
      \<and> n \<le> spec_num_pages (int (length xs)) orph pp allow \<longrightarrow>
     (\<exists>pg p'. page (Paginator_init xs pp orph allow) num = Inr (pg, p')
        \<and> number pg = n
        \<and> page_object_list pg =
            drop (nat ((n - 1) * pp))
              (take (nat (if int (length xs) \<le> (n - 1) * pp + pp + orph then int (length xs)
                          else (n - 1) * pp + pp)) xs)
        \<and> count p' = int (length xs)
        \<and> num_pages p' = Inr (spec_num_pages (int (length xs)) orph pp allow, p')))
   \<and> (cached_num_pages p = None \<and> 0 < per_page p \<longrightarrow>
        (\<exists>p'. num_pages p =
           Inr (spec_num_pages (count p) (orphans p) (per_page p) (allow_empty_first_page p), p')))
   \<and> page (Paginator_init [0..<23::nat] 10 5 True) (PInt 2) =
        Inr (\<lparr>page_object_list = [10..<23], number = 2\<rparr>,
             \<lparr>object_list = [0..<23], per_page = 10, orphans = 5,
              allow_empty_first_page = True, count = 23, cached_num_pages = Some 2,
              cached_count = Some 23\<rparr>)
   \<and> length [10..<23::nat] = 13"
proof (intro conjI impI)
  assume h: "0 < pp \<and> 0 \<le> orph \<and> py_int num = Inr n \<and> 1 \<le> n
      \<and> n \<le> spec_num_pages (int (length xs)) orph pp allow"
  let ?top = "if int (length xs) \<le> (n - 1) * pp + pp + orph then int (length xs)
                          else (n - 1) * pp + pp"
  have b: "0 \<le> (n - 1) * pp" using h by simp
  then have t: "0 \<le> ?top" using h by simp
  have sl: "py_slice xs ((n - 1) * pp) ?top = drop (nat ((n - 1) * pp)) (take (nat ?top) xs)"
    using b t by (rule py_slice_nonneg)
  show "\<exists>pg p'. page (Paginator_init xs pp orph allow) num = Inr (pg, p')
        \<and> number pg = n
        \<and> page_object_list pg = drop (nat ((n - 1) * pp)) (take (nat ?top) xs)
        \<and> count p' = int (length xs)
        \<and> num_pages p' = Inr (spec_num_pages (int (length xs)) orph pp allow, p')"
    using h sl by (simp add: page_fresh num_pages_cached)
next
  assume "cached_num_pages p = None \<and> 0 < per_page p"
  then show "\<exists>p'. num_pages p =
           Inr (spec_num_pages (count p) (orphans p) (per_page p) (allow_empty_first_page p), p')"
    by (simp add: num_pages_uncached)
next
  have "page (Paginator_init [0..<23::nat] 10 5 True) (PInt 2) =
     Inr (\<lparr>page_object_list = py_slice [0..<23] 10 23, number = 2\<rparr>,
          \<lparr>object_list = [0..<23], per_page = 10, orphans = 5, allow_empty_first_page = True,
           count = 23, cached_num_pages = Some 2, cached_count = Some 23\<rparr>)"
    using page_fresh [of 10 "PInt 2" 2 "[0..<23::nat]" 5 True]
    by (simp add: spec_num_pages_def)
  moreover have "py_slice [0..<23::nat] 10 23 = [10..<23]"
    by (simp add: py_slice_nonneg drop_take)
  ultimately show "page (Paginator_init [0..<23::nat] 10 5 True) (PInt 2) =
        Inr (\<lparr>page_object_list = [10..<23], number = 2\<rparr>,
             \<lparr>object_list = [0..<23], per_page = 10, orphans = 5,
              allow_empty_first_page = True, count = 23, cached_num_pages = Some 2,
              cached_count = Some 23\<rparr>)"
    by simp
next
  show "length [10..<23::nat] = 13" by simp
qed

lemma page_first_slice_bounds_example:
  "page_object_list (fst (projr (page (Paginator_init [0..<25::nat] 10 0 True) (PStr ''3'')))) = [20..<25]
   \<and> number (fst (projr (page (Paginator_init [0..<25::nat] 10 0 True) (PStr ''3'')))) = 3
   \<and> (\<exists>p'. num_pages ((Paginator_init [0..<25::nat] 10 0 True)\<lparr>count := 25\<rparr>) = Inr (3, p'))"
proof -
  have i: "py_int (PStr ''3'') = Inr 3"
    by (simp add: int_of_string_def strip_def is_space_def digit_of_def)
  have s: "spec_num_pages 25 0 10 True = 3"
    by (simp add: spec_num_pages_def)
  from page_first_slice_bounds_and_num_pages [of 10 0 "PStr ''3''" 3 "[0..<25::nat]" True
      "(Paginator_init [0..<25::nat] 10 0 True)\<lparr>count := 25\<rparr>"]
  show ?thesis
    using i s by (auto simp: Paginator_init_def drop_take)
qed

text \<open>
  \<open>num_pages\<close> read on a paginator fresh from \<open>__init__\<close>: \<open>count\<close> is still \<open>0\<close>, so the
  result is the page count of an empty collection, whatever the object list holds, and
  it is memoised.
\<close>

lemma num_pages_before_page:
  assumes "pp \<noteq> 0"
  shows "num_pages (Paginator_init xs pp orph allow) =
     Inr (spec_num_pages 0 orph pp allow,
          (Paginator_init xs pp orph allow)\<lparr>cached_num_pages := Some (spec_num_pages 0 orph pp allow)\<rparr>)"
  using num_pages_uncached [of "Paginator_init xs pp orph allow"] assms
  by (simp add: Paginator_init_def)

text \<open>
  Claim C6. For a paginator over \<open>count\<close> items with \<open>per_page > 0\<close> and \<open>orphans \<ge> 0\<close>,
  \<open>page(number)\<close> is meant to take the slice from \<open>bottom = (number - 1) * per_page\<close> to
  \<open>top = bottom + per_page\<close>, clamped to \<open>count\<close> whenever \<open>top + orphans \<ge> count\<close>, and
  \<open>num_pages\<close> to be \<open>0\<close> for an empty collection whose empty first page is disallowed and
  otherwise \<open>ceil(max(1, count - orphans) / per_page)\<close>; with 23 items, \<open>per_page = 10\<close>
  and \<open>orphans = 5\<close>, page 2 covers the indices 10 to 22 and there are 2 pages. Evaluated
  on a paginator over these 23 items fresh from \<open>__init__\<close>: \<open>num_pages\<close> is 1, not 2, and
  after that read \<open>page(2)\<close> fails with \<open>EmptyPage\<close>. Only when \<open>page(2)\<close> is the first
  use does it give the items 10 to 22, with 2 pages counted afterwards.
\<close>

theorem num_pages_before_page_counts_no_items:
  "num_pages (Paginator_init [0..<23::nat] 10 5 True) =
     Inr (1, \<lparr>object_list = [0..<23], per_page = 10, orphans = 5,
              allow_empty_first_page = True, count = 0, cached_num_pages = Some 1,
              cached_count = None\<rparr>)
   \<and> spec_num_pages (int (length [0..<23::nat])) 5 10 True = 2
   \<and> page \<lparr>object_list = [0..<23::nat], per_page = 10, orphans = 5,
           allow_empty_first_page = True, count = 0, cached_num_pages = Some 1,
           cached_count = None\<rparr> (PInt 2) =
       Inl (EmptyPage ''That page contains no results'')
   \<and> page (Paginator_init [0..<23::nat] 10 5 True) (PInt 2) =
       Inr (\<lparr>page_object_list = [10..<23], number = 2\<rparr>,
            \<lparr>object_list = [0..<23], per_page = 10, orphans = 5,
             allow_empty_first_page = True, count = 23, cached_num_pages = Some 2,
             cached_count = Some 23\<rparr>)"
proof (intro conjI)
  show "num_pages (Paginator_init [0..<23::nat] 10 5 True) =
     Inr (1, \<lparr>object_list = [0..<23], per_page = 10, orphans = 5,
              allow_empty_first_page = True, count = 0, cached_num_pages = Some 1,
              cached_count = None\<rparr>)"
    by (simp add: num_pages_def Paginator_init_def ceil_div_def)
next
  show "spec_num_pages (int (length [0..<23::nat])) 5 10 True = 2"
    by (simp add: spec_num_pages_def)
next
  show "page \<lparr>object_list = [0..<23::nat], per_page = 10, orphans = 5,
           allow_empty_first_page = True, count = 0, cached_num_pages = Some 1,
           cached_count = None\<rparr> (PInt 2) =
       Inl (EmptyPage ''That page contains no results'')"
    by (simp add: page_def get_count_def validate_number_def num_pages_def Let_def)
next
  have "page (Paginator_init [0..<23::nat] 10 5 True) (PInt 2) =
     Inr (\<lparr>page_object_list = py_slice [0..<23] 10 23, number = 2\<rparr>,
          \<lparr>object_list = [0..<23], per_page = 10, orphans = 5, allow_empty_first_page = True,
           count = 23, cached_num_pages = Some 2, cached_count = Some 23\<rparr>)"
    using page_fresh [of 10 "PInt 2" 2 "[0..<23::nat]" 5 True]
    by (simp add: spec_num_pages_def)
  moreover have "py_slice [0..<23::nat] 10 23 = [10..<23]"
    by (simp add: py_slice_nonneg drop_take)
  ultimately show "page (Paginator_init [0..<23::nat] 10 5 True) (PInt 2) =
       Inr (\<lparr>page_object_list = [10..<23], number = 2\<rparr>,
            \<lparr>object_list = [0..<23], per_page = 10, orphans = 5,
             allow_empty_first_page = True, count = 23, cached_num_pages = Some 2,
             cached_count = Some 23\<rparr>)"
    by simp
qed



text \<open>
  When the page parameter is a last-page token, \<open>paginate_object_list\<close> reads \<open>num_pages\<close>
  from the paginator it has just built. \<open>count\<close> is still the \<open>0\<close> of \<open>__init__\<close> at that
  point (only \<open>page\<close> fetches it), so with a positive page size the page count comes out
  as 1, is memoised, and the first page is served whatever the length of the collection.
\<close>

lemma paginate_last_is_first_page:
  assumes "get_page_size cfg req = Some sz" and "0 < sz"
    and "GET req (page_query_param cfg) = Some s" and "s \<in> set (last_page_strings cfg)"
  shows "\<exists>p'. paginate_object_list cfg xs req =
           Inr (Some (\<lparr>page_object_list = take (nat sz) xs, number = 1\<rparr>, p'))"
proof -
  have m: "py_in_strings (PStr s) (last_page_strings cfg)"
    using assms(4) by (auto simp: py_in_strings_def list_ex_iff)
  have c: "ceil_div 1 sz = 1"
    using assms(2) by (simp add: ceil_div_def div_eq_minus1)
  have np: "num_pages (Paginator_init xs sz 0 True) =
      Inr (1, (Paginator_init xs sz 0 True)\<lparr>cached_num_pages := Some 1\<rparr>)"
    using assms(2) c by (simp add: num_pages_def Paginator_init_def)
  show ?thesis
    using assms(1,2,3) m
    by (auto simp: paginate_object_list_def np page_def get_count_def Paginator_init_def
        validate_number_def num_pages_def Let_def get_slice_def c py_slice_nonneg)
qed

text \<open>
  Claim C2. A request whose page parameter is the last-page token \<open>last\<close> is meant to get
  the final page, the one whose number is the page count of the collection. Evaluated on
  25 items with the default page size of 10: the token yields page 1 with items 0 to 9,
  while the page count is 3 and the request for page \<open>3\<close> yields items 20 to 24.
\<close>

theorem paginate_last_sentinel_returns_first_page:
  "paginate_object_list PageNumberPagination [0..<25::nat]
     \<lparr>GET = [''page'' \<mapsto> ''last''], query_params = Map.empty\<rparr> =
   Inr (Some (\<lparr>page_object_list = [0..<10], number = 1\<rparr>,
        \<lparr>object_list = [0..<25], per_page = 10, orphans = 0, allow_empty_first_page = True,
           count = 25, cached_num_pages = Some 1, cached_count = Some 25\<rparr>))
   \<and> spec_num_pages (int (length [0..<25::nat])) 0 10 True = 3
   \<and> paginate_object_list PageNumberPagination [0..<25::nat]
     \<lparr>GET = [''page'' \<mapsto> ''3''], query_params = Map.empty\<rparr> =
   Inr (Some (\<lparr>page_object_list = [20..<25], number = 3\<rparr>,
        \<lparr>object_list = [0..<25], per_page = 10, orphans = 0, allow_empty_first_page = True,
           count = 25, cached_num_pages = Some 3, cached_count = Some 25\<rparr>))"
  by (simp add: paginate_object_list_def PageNumberPagination_def get_page_size_def py_in_strings_def
      page_def Paginator_init_def get_count_def validate_number_def num_pages_def
      ceil_div_def get_slice_def py_slice_def slice_index_def Let_def take_upt drop_take
      spec_num_pages_def int_of_string_def strip_def is_space_def digit_of_def)

section \<open>Properties of the validators\<close>






section \<open>Properties of the fields\<close>

lemma py_eq_PStr_right [simp]: "py_eq x (PStr s) = (x = PStr s)"
  by (cases x) (auto split: pyval.splits)

lemma in_TRUE_VALUES:
  "list_ex (py_eq v) TRUE_VALUES =
     (v \<in> {PStr ''t'', PStr ''T'', PStr ''true'', PStr ''True'', PStr ''TRUE'', PStr ''1'',
            PInt 1, PBool True})"
  by (cases v) (auto simp: TRUE_VALUES_def)

lemma in_FALSE_VALUES:
  "list_ex (py_eq v) FALSE_VALUES =
     (v \<in> {PStr ''f'', PStr ''F'', PStr ''false'', PStr ''False'', PStr ''FALSE'', PStr ''0'',
            PInt 0, PBool False})"
  by (cases v) (auto simp: FALSE_VALUES_def)

lemma to_internal_value_true:
  "v \<in> {PStr ''True'', PStr ''true'', PStr ''1'', PInt 1, PBool True} \<Longrightarrow>
   to_internal_value v = Inr (PBool True)"
  by (auto simp: to_internal_value_def py_in_set_def in_TRUE_VALUES)

lemma to_internal_value_false:
  "v \<in> {PStr ''False'', PStr ''false'', PStr ''0'', PInt 0, PBool False} \<Longrightarrow>
   to_internal_value v = Inr (PBool False)"
  by (auto simp: to_internal_value_def py_in_set_def in_TRUE_VALUES in_FALSE_VALUES)

lemma to_internal_value_unhashable:
  "\<not> py_hashable v \<Longrightarrow> to_internal_value v = Inl (ValidationError (DMsg (Message ''invalid'' [])))"
  by (simp add: to_internal_value_def py_in_set_def fail_def)

text \<open>
  Claim C1. For \<open>BooleanField\<close>, \<open>to_python\<close> is meant to give \<open>True\<close> for each of
  \<open>"True"\<close>, \<open>"true"\<close>, \<open>"1"\<close>, \<open>1\<close>, \<open>True\<close>, \<open>False\<close> for each of \<open>"False"\<close>, \<open>"false"\<close>,
  \<open>"0"\<close>, \<open>0\<close>, \<open>False\<close>, and to fail with \<open>invalid\<close> on an unhashable input. The three
  lemmas above show that \<open>to_internal_value\<close> does just that. \<open>to_python\<close>, which is what
  \<open>run_validation\<close> calls, is the inherited identity: the string \<open>"False"\<close> comes back as
  the (truthy) string \<open>"False"\<close>, and an unhashable list comes back unchanged.
\<close>

theorem BooleanField_to_python_is_identity:
  "to_python BooleanField (PStr ''False'') = Inr (PStr ''False'')
   \<and> py_truthy (PStr ''False'')
   \<and> Field_run_validation h (Field_init BooleanField default_kwargs) (PStr ''False'') =
       Inr (PStr ''False'')
   \<and> to_python BooleanField (PStr ''True'') = Inr (PStr ''True'')
   \<and> to_python BooleanField (PList []) = Inr (PList [])
   \<and> to_internal_value (PStr ''False'') = Inr (PBool False)"
  by (simp add: Field_run_validation_def Field_init_def default_kwargs_def to_internal_value_false [of "PStr ''False''"])

text \<open>The value that \<open>d.get(k)\<close> gives for a hashable key.\<close>

definition lookup :: "(pyval \<times> pyval) list \<Rightarrow> pyval \<Rightarrow> pyval" where
  "lookup d k = (case py_dict_find d k of None \<Rightarrow> PNone | Some v \<Rightarrow> v)"

text \<open>
  Claim C10. \<open>ChoiceField.to_python\<close> accepts by truthiness: for an input that is not
  the allowed blank string, it succeeds exactly when the lookup in the string-alias map or
  the lookup in \<open>choices\<close> gives a truthy result, and it fails with \<open>invalid_choice\<close>
  otherwise. So the string \<open>"0"\<close> for a choice value \<open>0\<close> (the alias lookup gives \<open>0\<close>) and
  the native value \<open>1\<close> of a choice whose label is the empty string are rejected although
  they are declared choices.
\<close>

theorem ChoiceField_to_python_truthiness:
  "(py_hashable v \<and> \<not> (v = PStr [] \<and> blank) \<longrightarrow>
      ((to_python (ChoiceField choices strings blank) v = Inr v) =
         (py_truthy (lookup strings v) \<or> py_truthy (lookup choices v)))
      \<and> (to_python (ChoiceField choices strings blank) v = Inr v
          \<or> to_python (ChoiceField choices strings blank) v =
               Inl (ValidationError (DMsg (Message ''invalid_choice'' [(''input'', v)])))))
   \<and> ChoiceField_init [(PInt 0, PStr ''zero'')] False default_kwargs =
       Inr (Field_init (ChoiceField [(PInt 0, PStr ''zero'')] [(PStr ''0'', PInt 0)] False) default_kwargs)
   \<and> to_python (ChoiceField [(PInt 0, PStr ''zero'')] [(PStr ''0'', PInt 0)] False) (PStr ''0'') =
       Inl (ValidationError (DMsg (Message ''invalid_choice'' [(''input'', PStr ''0'')])))
   \<and> ChoiceField_init [(PInt 1, PStr '''')] False default_kwargs =
       Inr (Field_init (ChoiceField [(PInt 1, PStr '''')] [(PStr ''1'', PInt 1)] False) default_kwargs)
   \<and> py_dict_find [(PInt 1, PStr '''')] (PInt 1) = Some (PStr '''')
   \<and> to_python (ChoiceField [(PInt 1, PStr '''')] [(PStr ''1'', PInt 1)] False) (PInt 1) =
       Inl (ValidationError (DMsg (Message ''invalid_choice'' [(''input'', PInt 1)])))"
proof (intro conjI impI)
  assume h: "py_hashable v \<and> \<not> (v = PStr [] \<and> blank)"
  show "(to_python (ChoiceField choices strings blank) v = Inr v) =
         (py_truthy (lookup strings v) \<or> py_truthy (lookup choices v))"
    using h by (auto simp: py_dict_get_def py_dict_get_default_def lookup_def)
  show "to_python (ChoiceField choices strings blank) v = Inr v
          \<or> to_python (ChoiceField choices strings blank) v =
               Inl (ValidationError (DMsg (Message ''invalid_choice'' [(''input'', v)])))"
    using h by (auto simp: py_dict_get_def py_dict_get_default_def)
next
  show "ChoiceField_init [(PInt 0, PStr ''zero'')] False default_kwargs =
       Inr (Field_init (ChoiceField [(PInt 0, PStr ''zero'')] [(PStr ''0'', PInt 0)] False) default_kwargs)"
    by (simp add: ChoiceField_init_def choice_strings_to_values_def py_str_def string_of_int_def)
next
  show "ChoiceField_init [(PInt 1, PStr [])] False default_kwargs =
       Inr (Field_init (ChoiceField [(PInt 1, PStr [])] [(PStr ''1'', PInt 1)] False) default_kwargs)"
    by (simp add: ChoiceField_init_def choice_strings_to_values_def py_str_def string_of_int_def)
qed (simp_all add: py_dict_get_def py_dict_get_default_def)

theorem ChoiceField_to_python_truthiness_witness:
  "to_python (ChoiceField [(PInt 1, PStr ''one''), (PInt 2, PStr ''two'')]
       [(PStr ''1'', PInt 1), (PStr ''2'', PInt 2)] False) (PStr ''1'') = Inr (PStr ''1'')
   \<and> to_python (ChoiceField [(PInt 1, PStr ''one''), (PInt 2, PStr ''two'')]
       [(PStr ''1'', PInt 1), (PStr ''2'', PInt 2)] False) (PInt 1) = Inr (PInt 1)
   \<and> to_python (ChoiceField [(PInt 1, PStr ''one''), (PInt 2, PStr ''two'')]
       [(PStr ''1'', PInt 1), (PStr ''2'', PInt 2)] False) (PStr ''3'') =
       Inl (ValidationError (DMsg (Message ''invalid_choice'' [(''input'', PStr ''3'')])))
   \<and> to_python (ChoiceField [(PInt 0, PStr ''zero'')] [(PStr ''0'', PInt 0)] False) (PInt 0) =
       Inr (PInt 0)"
proof -
  let ?choices = "[(PInt 1, PStr ''one''), (PInt 2, PStr ''two'')]"
  let ?strings = "[(PStr ''1'', PInt 1), (PStr ''2'', PInt 2)]"
  note general = ChoiceField_to_python_truthiness [THEN conjunct1, rule_format]
  have a: "to_python (ChoiceField ?choices ?strings False) (PStr ''1'') = Inr (PStr ''1'')"
    using general [of "PStr ''1''" False ?choices ?strings, THEN conjunct1]
    by (simp add: lookup_def)
  have b: "to_python (ChoiceField ?choices ?strings False) (PInt 1) = Inr (PInt 1)"
    using general [of "PInt 1" False ?choices ?strings, THEN conjunct1]
    by (simp add: lookup_def)
  have c: "to_python (ChoiceField ?choices ?strings False) (PStr ''3'') =
       Inl (ValidationError (DMsg (Message ''invalid_choice'' [(''input'', PStr ''3'')])))"
  proof -
    have "to_python (ChoiceField ?choices ?strings False) (PStr ''3'') \<noteq> Inr (PStr ''3'')"
      using general [of "PStr ''3''" False ?choices ?strings, THEN conjunct1]
      by (simp add: lookup_def)
    then show ?thesis
      using general [of "PStr ''3''" False ?choices ?strings, THEN conjunct2]
      by (simp del: to_python.simps)
  qed
  have d: "to_python (ChoiceField [(PInt 0, PStr ''zero'')] [(PStr ''0'', PInt 0)] False) (PInt 0) =
       Inr (PInt 0)"
    using general [of "PInt 0" False "[(PInt 0, PStr ''zero'')]" "[(PStr ''0'', PInt 0)]", THEN conjunct1]
    by (simp add: lookup_def)
  from a b c d show ?thesis by blast
qed

section \<open>Properties of the serializers\<close>

subsection \<open>Example schemas\<close>

text \<open>
  A store whose object 0 is a required \<open>IntegerField\<close> and whose other field objects are
  \<open>CharField(max_length=5)\<close>; the schema \<open>schema_x\<close> declares the single field \<open>x\<close> (object
  0), the schema \<open>schema_x_name\<close> the fields \<open>x\<close> and \<open>name\<close> (objects 0 and 1).
\<close>

definition blank_serializer :: serializer where
  "blank_serializer =
     \<lparr>name = PNone, initial_data = PDict [], validated_data = PDict [], errors = DDict [],
      required = True, read_only = False, default_val = PNone, validators = [], parent = None,
      partial = False, sclass = \<lparr>declared_fields = [], meta = None\<rparr>, instance_obj = None,
      bound_fields = [], writable_fields = [], cached_data = None\<rparr>"

definition example_store :: store where
  "example_store =
     \<lparr>field_objs = (\<lambda>r. if r = 0 then Field_init IntegerField default_kwargs
                         else CharField_init (PInt 5) default_kwargs),
      serializer_objs = (\<lambda>r. blank_serializer),
      next_ref = 0\<rparr>"

definition schema_x :: serializer_class where
  "schema_x = \<lparr>declared_fields = [(''x'', 0)],
               meta = Some \<lparr>meta_fields = [''x''], meta_validators = []\<rparr>\<rparr>"

definition schema_x_name :: serializer_class where
  "schema_x_name = \<lparr>declared_fields = [(''x'', 0), (''name'', 1)],
               meta = Some \<lparr>meta_fields = [''x'', ''name''], meta_validators = []\<rparr>\<rparr>"

lemma init_schema_x:
  assumes "\<not> read_only (field_objs h 0)"
  shows "Serializer_init schema_x inst kw h =
     Inr (next_ref h,
          \<lparr>field_objs = (field_objs h)
             (0 := (field_objs h 0)
                     \<lparr>parent := Some (next_ref h), name := PStr ''x'', partial := kw_partial kw\<rparr>),
           serializer_objs = (serializer_objs h)
             (next_ref h :=
                \<lparr>name = kw_name kw,
                 initial_data = (if py_truthy (kw_initial_data kw) then kw_initial_data kw else PDict []),
                 validated_data = PDict [],
                 errors = DDict [],
                 required = kw_required kw,
                 read_only = kw_read_only kw,
                 default_val = kw_default kw,
                 validators = [],
                 parent = None,
                 partial = kw_partial kw,
                 sclass = schema_x,
                 instance_obj = inst,
                 bound_fields = [(''x'', Some 0)],
                 writable_fields = [(PStr ''x'', 0)],
                 cached_data = None\<rparr>),
           next_ref = Suc (next_ref h)\<rparr>)"
  using assms
  by (simp add: Serializer_init_def get_fields_def build_field_def bind_def update_field_def
      update_serializer_def get_writable_fields_def Let_def schema_x_def)

subsection \<open>Sharing of the declared fields\<close>

text \<open>
  Claim C4. Each schema instance is meant to bind a fresh or deep-copied set of \<open>Field\<close>
  objects, so that binding through one instance is never seen through another instance
  or through the class. \<open>build_field\<close> binds the object found in \<open>_declared_fields\<close>
  itself. Evaluated on two instances \<open>a\<close> and \<open>b\<close> of \<open>schema_x\<close>, the second built with
  \<open>partial=True\<close> and an instance whose \<open>x\<close> is 7: both hold the class's object 0 as
  their field \<open>x\<close>; after \<open>b\<close> is built that object's \<open>parent\<close> is \<open>b\<close> and its \<open>partial\<close>
  is true, and validating empty data through \<open>a\<close>, which failed before \<open>b\<close> existed, now
  returns the 7 of \<open>b\<close>'s instance.
\<close>

theorem bind_mutates_shared_declared_field:
  "\<exists>a b h1 h2.
     Serializer_init schema_x None default_kwargs example_store = Inr (a, h1)
     \<and> Serializer_init schema_x (Some (Obj [(''x'', PInt 7)]))
          (default_kwargs\<lparr>kw_partial := True\<rparr>) h1 = Inr (b, h2)
     \<and> a \<noteq> b
     \<and> map_of (declared_fields schema_x) ''x'' = Some 0
     \<and> bound_fields (serializer_objs h2 a) = [(''x'', Some 0)]
     \<and> bound_fields (serializer_objs h2 b) = [(''x'', Some 0)]
     \<and> parent (field_objs h1 0) = Some a \<and> partial (field_objs h1 0) = False
     \<and> parent (field_objs h2 0) = Some b \<and> partial (field_objs h2 0) = True
     \<and> fst (BaseSerializer_run_validation a (PDict []) h1) =
           Inl (ValidationError (DDict [(PStr ''x'', DMsg (Message ''to_python'' []))]))
     \<and> fst (BaseSerializer_run_validation a (PDict []) h2) = Inr (PDict [(PStr ''x'', PInt 7)])"
proof -
  have r0: "\<not> read_only (field_objs example_store 0)"
    by (simp add: example_store_def Field_init_def default_kwargs_def)
  note i1 = init_schema_x [OF r0, of None default_kwargs]
  let ?h1 = "snd (projr (Serializer_init schema_x None default_kwargs example_store))"
  have r1: "\<not> read_only (field_objs ?h1 0)"
    by (simp add: i1) (simp add: example_store_def Field_init_def default_kwargs_def)
  note i2 = init_schema_x [OF r1, of "Some (Obj [(''x'', PInt 7)])" "default_kwargs\<lparr>kw_partial := True\<rparr>"]
  show ?thesis
    apply (rule exI [of _ 0], rule exI [of _ 1], rule exI [of _ ?h1])
    apply (rule exI [of _ "snd (projr (Serializer_init schema_x (Some (Obj [(''x'', PInt 7)]))
          (default_kwargs\<lparr>kw_partial := True\<rparr>) ?h1))"])
    apply (simp only: i2)
    apply (simp only: i1)
    apply (simp add: example_store_def Field_init_def default_kwargs_def schema_x_def
        BaseSerializer_run_validation_def Field_run_validation_def update_serializer_def
        get_attribute_def py_dict_get_def py_dict_get_default_def fail_def Let_def)
    done
qed

subsection \<open>The property data\<close>

lemma get_fields_loop_serializers:
  "serializer_objs (snd (get_fields_loop self ns acc h)) = serializer_objs h"
  by (induction ns arbitrary: acc h)
     (auto simp: build_field_def bind_def update_field_def split: option.splits prod.splits)

lemma get_fields_loop_next_ref:
  "next_ref (snd (get_fields_loop self ns acc h)) = next_ref h"
  by (induction ns arbitrary: acc h)
     (auto simp: build_field_def bind_def update_field_def split: option.splits prod.splits)

lemma set_validators_loop_serializers:
  "set_validators_loop wfields vs h = Inr h' \<Longrightarrow> serializer_objs h' = serializer_objs h"
  by (induction wfields vs h rule: set_validators_loop.induct)
     (auto simp: update_field_def split: option.splits)

lemma get_fields_loop_serializers':
  "get_fields_loop self ns acc h = (fs, h') \<Longrightarrow> serializer_objs h' = serializer_objs h"
  using get_fields_loop_serializers [of self ns acc h] by simp

lemma Serializer_init_serializer:
  assumes "Serializer_init c inst kw h = Inr (a, h')"
  shows "\<exists>fs wfields.
     serializer_objs h' a =
       \<lparr>name = kw_name kw,
        initial_data = (if py_truthy (kw_initial_data kw) then kw_initial_data kw else PDict []),
        validated_data = PDict [],
        errors = DDict [],
        required = kw_required kw,
        read_only = kw_read_only kw,
        default_val = kw_default kw,
        validators = [],
        parent = None,
        partial = kw_partial kw,
        sclass = c,
        instance_obj = inst,
        bound_fields = fs,
        writable_fields = wfields,
        cached_data = None\<rparr>"
  using assms
  by (auto simp: Serializer_init_def get_fields_def Let_def update_serializer_def
      split: option.splits sum.splits prod.splits
      dest!: set_validators_loop_serializers get_fields_loop_serializers')

lemma Serializer_init_validated_data:
  assumes "Serializer_init c inst kw h = Inr (a, h')"
  shows "validated_data (serializer_objs h' a) = PDict []"
    and "cached_data (serializer_objs h' a) = None"
    and "errors (serializer_objs h' a) = DDict []"
    and "instance_obj (serializer_objs h' a) = inst"
    and "initial_data (serializer_objs h' a) =
           (if py_truthy (kw_initial_data kw) then kw_initial_data kw else PDict [])"
  using Serializer_init_serializer [OF assms] by auto

lemma py_int_errors: "py_int v = Inl e \<Longrightarrow> e = TypeError \<or> e = ValueError"
  by (cases v) (auto split: option.splits)

lemma get_attribute_errors: "get_attribute f inst = Inl e \<Longrightarrow> e = TypeError"
  by (auto simp: get_attribute_def py_dict_get_def py_dict_get_default_def
      split: option.splits inst.splits pyval.splits if_splits)

lemma to_representation_errors:
  "to_representation c v = Inl e \<Longrightarrow> e = TypeError \<or> e = ValueError"
  by (cases c)
     (auto simp: py_dict_get_default_def py_in_set_def map_sum_def
       split: if_splits sum.splits dest: py_int_errors)

lemma to_representation_loop_errors:
  "to_representation_loop h flds inst ret = Inl e \<Longrightarrow>
   e = TypeError \<or> e = ValueError \<or> e = AttributeError"
proof (induction h flds inst ret rule: to_representation_loop.induct)
  case (3 h n r rest inst ret)
  then show ?case
    by (auto split: sum.splits if_splits dest: get_attribute_errors to_representation_errors)
qed simp_all

lemma Serializer_to_representation_errors:
  "Serializer_to_representation h self inst = Inl e \<Longrightarrow>
   e = TypeError \<or> e = ValueError \<or> e = AttributeError"
  by (auto simp: Serializer_to_representation_def map_sum_def split: sum.splits
      dest: to_representation_loop_errors)

text \<open>No serializer fresh from \<open>__init__\<close> makes \<open>data\<close> raise the assertion.\<close>

lemma data_property_never_asserts_after_init:
  assumes "Serializer_init c inst kw h = Inr (a, h')"
  shows "fst (data_property a h') \<noteq> Inl AssertionError"
    and "inst = None \<Longrightarrow> fst (data_property a h') =
           Inr (if py_truthy (kw_initial_data kw) then kw_initial_data kw else PDict [])"
  using Serializer_init_validated_data [OF assms]
  by (auto simp: data_property_def Let_def split: sum.splits
      dest: Serializer_to_representation_errors)

text \<open>
  Claim C3. For a schema built with non-empty \<open>initial_data\<close>, reading \<open>data\<close> before
  \<open>is_valid\<close> is meant to fail with an assertion error; after \<open>is_valid\<close>, \<open>data\<close> is the
  rendered instance if there is one and no errors, else the rendered validated data if
  there is some and no errors, else the initial data. The guard tests
  \<open>validated_data is None\<close>, and \<open>Field.__init__\<close> sets \<open>validated_data\<close> to an empty
  dictionary, so the guard never fires (the lemma above). Evaluated on \<open>schema_x\<close> with
  \<open>initial_data = {"x": "12"}\<close>: \<open>data\<close> before \<open>is_valid\<close> is the initial data, \<open>is_valid\<close>
  is true, and \<open>data\<close> after it is the rendered validated data.
\<close>

theorem data_before_is_valid_returns_initial_data:
  "\<exists>a h1.
     Serializer_init schema_x None
       (default_kwargs\<lparr>kw_initial_data := PDict [(PStr ''x'', PStr ''12'')]\<rparr>) example_store =
       Inr (a, h1)
     \<and> py_truthy (initial_data (serializer_objs h1 a))
     \<and> fst (data_property a h1) = Inr (PDict [(PStr ''x'', PStr ''12'')])
     \<and> fst (is_valid a False h1) = Inr True
     \<and> fst (data_property a (snd (is_valid a False h1))) = Inr (PDict [(PStr ''x'', PInt 12)])"
proof -
  let ?kw = "default_kwargs\<lparr>kw_initial_data := PDict [(PStr ''x'', PStr ''12'')]\<rparr>"
  have r0: "\<not> read_only (field_objs example_store 0)"
    by (simp add: example_store_def Field_init_def default_kwargs_def)
  obtain h1 where init: "Serializer_init schema_x None ?kw example_store = Inr (0, h1)"
    and f0: "field_objs h1 0 =
        (Field_init IntegerField default_kwargs)\<lparr>parent := Some 0, name := PStr ''x''\<rparr>"
    and s0: "serializer_objs h1 0 =
        \<lparr>name = PNone, initial_data = PDict [(PStr ''x'', PStr ''12'')],
         validated_data = PDict [], errors = DDict [], required = True, read_only = False,
         default_val = PNone, validators = [], parent = None, partial = False,
         sclass = schema_x, instance_obj = None, bound_fields = [(''x'', Some 0)],
         writable_fields = [(PStr ''x'', 0)], cached_data = None\<rparr>"
    using init_schema_x [OF r0, of None ?kw]
    by (simp add: example_store_def Field_init_def default_kwargs_def)
  have i: "int_of_string ''12'' = Some 12"
    by (simp add: int_of_string_def strip_def is_space_def digit_of_def)
  have nm: "name (field_objs h1 0) = PStr ''x''"
    by (simp add: f0)
  have frv: "Field_run_validation h1 (field_objs h1 0) (PStr ''12'') = Inr (PInt 12)"
    by (simp add: f0 Field_run_validation_def Field_init_def default_kwargs_def i)
  have d1: "fst (data_property 0 h1) = Inr (PDict [(PStr ''x'', PStr ''12'')])"
    by (simp add: data_property_def s0)
  define h2 where "h2 = update_serializer 0 (\<lambda>s. s\<lparr>errors := DDict []\<rparr>) h1"
  have rv: "BaseSerializer_run_validation 0 (PDict [(PStr ''x'', PStr ''12'')]) h1 =
        (Inr (PDict [(PStr ''x'', PInt 12)]), h2)"
    by (simp add: BaseSerializer_run_validation_def s0 py_dict_get_def py_dict_get_default_def
        frv nm h2_def)
  have f2: "field_objs h2 = field_objs h1" and s2: "serializer_objs h2 0 = serializer_objs h1 0"
    by (simp_all add: h2_def update_serializer_def s0)
  define h3 where
    "h3 = update_serializer 0 (\<lambda>s. s\<lparr>validated_data := PDict [(PStr ''x'', PInt 12)]\<rparr>) h2"
  have f3: "field_objs h3 = field_objs h1"
    and s3: "serializer_objs h3 0 =
        (serializer_objs h1 0)\<lparr>validated_data := PDict [(PStr ''x'', PInt 12)]\<rparr>"
    by (simp_all add: h3_def update_serializer_def f2 s2)
  have iv: "is_valid 0 False h1 = (Inr True, h3)"
    by (simp add: is_valid_def s0 rv s3 flip: h3_def)
  have rep: "Serializer_to_representation h3 0 (Some (Prim (PDict [(PStr ''x'', PInt 12)]))) =
      Inr (PDict [(PStr ''x'', PInt 12)])"
    by (simp add: Serializer_to_representation_def s3 s0 f3 f0 get_attribute_def
        py_dict_get_def py_dict_get_default_def Field_init_def default_kwargs_def)
  have d2: "fst (data_property 0 h3) = Inr (PDict [(PStr ''x'', PInt 12)])"
    by (simp add: data_property_def s3 s0 rep)
  show ?thesis
    using init d1 iv d2 by (auto simp: s0)
qed

subsection \<open>ListSerializer\<close>

lemma ListSerializer_loop_result:
  "ListSerializer_loop c items ret errs =
     Inr (ret @ map (Coroutine c) items, errs @ map (\<lambda>item. DDict []) items)"
  by (induction items arbitrary: ret errs) (simp_all add: call_run_validation_def)

text \<open>
  On a list, \<open>ListSerializer.run_validation\<close> gives back one pending coroutine per item
  and raises nothing, whatever the items are.
\<close>

lemma ListSerializer_run_validation_list:
  "ListSerializer_run_validation ls (PList items) = Inr (map (Coroutine (child ls)) items)"
  by (simp add: ListSerializer_run_validation_def ListSerializer_loop_result list_ex_iff)

lemma ListSerializer_run_validation_never_ValidationError:
  "ListSerializer_run_validation ls data \<noteq> Inl (ValidationError d)"
  by (cases "py_iter data")
     (auto simp: ListSerializer_run_validation_def ListSerializer_loop_result list_ex_iff
       elim: py_iter.elims)

text \<open>
  Claim C5. \<open>ListSerializer.run_validation\<close> is meant to validate each item against the
  child, collect one error detail per item, and raise a \<open>ValidationError\<close> with the full
  list exactly when some item failed; for a child with one required field and the input
  \<open>[{"x": 1}, {}]\<close> that is the detail \<open>[{}, {"x": [required]}]\<close>. Evaluated on that
  input with \<open>schema_x\<close> as the child: the result is the list of the two coroutines of
  the child's \<open>run_validation\<close>, not awaited, and no error. Awaited, the second one raises
  a \<open>ValidationError\<close> whose detail holds the \<open>to_python\<close> message under \<open>x\<close>.
\<close>

theorem ListSerializer_run_validation_returns_coroutines:
  "\<exists>c h1.
     Serializer_init schema_x None default_kwargs example_store = Inr (c, h1)
     \<and> bound_fields (serializer_objs h1 c) = [(''x'', Some 0)]
     \<and> required (field_objs h1 0)
     \<and> ListSerializer_run_validation (ListSerializer_init c True default_kwargs)
          (PList [PDict [(PStr ''x'', PInt 1)], PDict []]) =
         Inr [Coroutine c (PDict [(PStr ''x'', PInt 1)]), Coroutine c (PDict [])]
     \<and> fst (await (Coroutine c (PDict [(PStr ''x'', PInt 1)])) h1) = Inr (PDict [(PStr ''x'', PInt 1)])
     \<and> fst (await (Coroutine c (PDict [])) h1) =
         Inl (ValidationError (DDict [(PStr ''x'', DMsg (Message ''to_python'' []))]))"
proof -
  have r0: "\<not> read_only (field_objs example_store 0)"
    by (simp add: example_store_def Field_init_def default_kwargs_def)
  note i1 = init_schema_x [OF r0, of None default_kwargs]
  show ?thesis
    apply (rule exI [of _ 0])
    apply (rule exI [of _ "snd (projr (Serializer_init schema_x None default_kwargs example_store))"])
    apply (simp only: i1)
    apply (simp add: example_store_def Field_init_def default_kwargs_def schema_x_def
        ListSerializer_run_validation_list ListSerializer_init_def
        BaseSerializer_run_validation_def Field_run_validation_def update_serializer_def
        get_attribute_def py_dict_get_def py_dict_get_default_def fail_def Let_def)
    done
qed

subsection \<open>Representation\<close>

lemma py_dict_find_set_PStr:
  "py_dict_find (py_dict_set k1 v d) (PStr k) =
     (if k1 = PStr k then Some v else py_dict_find d (PStr k))"
  by (induction d) auto

definition rendered :: "field \<Rightarrow> inst option \<Rightarrow> pyval \<Rightarrow> bool" where
  "rendered f inst v =
     (case get_attribute f inst of
        Inl e \<Rightarrow> False
      | Inr attribute \<Rightarrow>
          if py_truthy attribute then to_representation (cls f) attribute = Inr v
          else v = attribute)"

lemma to_representation_loop_entry:
  assumes "to_representation_loop h flds inst ret0 = Inr ret"
    and "name (field_objs h r) = PStr k"
    and "\<And>n' r'. (n', Some r') \<in> set flds \<Longrightarrow> name (field_objs h r') = PStr k \<Longrightarrow> r' = r"
    and "(\<exists>n. (n, Some r) \<in> set flds) \<or>
         (\<exists>v. py_dict_find ret0 (PStr k) = Some v \<and> rendered (field_objs h r) inst v)"
  shows "\<exists>v. py_dict_find ret (PStr k) = Some v \<and> rendered (field_objs h r) inst v"
  using assms
proof (induction h flds inst ret0 rule: to_representation_loop.induct)
  case (1 h inst ret0)
  then show ?case by simp
next
  case (2 h n rest inst ret0)
  then show ?case by simp
next
  case (3 h n r' rest inst ret0)
  from "3.prems"(1) obtain a v where
    a: "get_attribute (field_objs h r') inst = Inr a"
    and v: "(if py_truthy a then to_representation (cls (field_objs h r')) a else Inr a) = Inr v"
    and hs: "py_hashable (name (field_objs h r'))"
    and rest: "to_representation_loop h rest inst (py_dict_set (name (field_objs h r')) v ret0) = Inr ret"
    by (auto split: sum.splits if_splits)
  have rv: "rendered (field_objs h r') inst v"
    using a v by (auto simp: rendered_def split: if_splits)
  have step: "(\<exists>n. (n, Some r) \<in> set rest) \<or>
      (\<exists>w. py_dict_find (py_dict_set (name (field_objs h r')) v ret0) (PStr k) = Some w
           \<and> rendered (field_objs h r) inst w)"
  proof (cases "name (field_objs h r') = PStr k")
    case True
    then have "r' = r" using "3.prems"(3) [of n r'] by simp
    then show ?thesis using rv True by (simp add: py_dict_find_set_PStr)
  next
    case False
    then have "r' \<noteq> r" using "3.prems"(2) by auto
    then show ?thesis using "3.prems"(4) False by (auto simp: py_dict_find_set_PStr)
  qed
  show ?case
    by (rule "3.IH" [OF a v hs rest "3.prems"(2) _ step]) (use "3.prems"(3) in auto)
qed

lemma to_representation_loop_total:
  assumes "\<And>n r. (n, r) \<in> set flds \<Longrightarrow>
     \<exists>r' v. r = Some r' \<and> py_hashable (name (field_objs h r')) \<and> rendered (field_objs h r') inst v"
  shows "\<exists>ret. to_representation_loop h flds inst ret0 = Inr ret"
  using assms
proof (induction h flds inst ret0 rule: to_representation_loop.induct)
  case (1 h inst ret0)
  then show ?case by simp
next
  case (2 h n rest inst ret0)
  from "2.prems" [of n None] show ?case by simp
next
  case (3 h n r rest inst ret0)
  from "3.prems" [of n "Some r"] obtain v where
    hs: "py_hashable (name (field_objs h r))" and rv: "rendered (field_objs h r) inst v"
    by auto
  from rv obtain a where a: "get_attribute (field_objs h r) inst = Inr a"
    and v: "(if py_truthy a then to_representation (cls (field_objs h r)) a else Inr a) = Inr v"
    by (auto simp: rendered_def split: sum.splits if_splits)
  have "\<exists>ret. to_representation_loop h rest inst (py_dict_set (name (field_objs h r)) v ret0) = Inr ret"
    by (rule "3.IH" [OF a v hs]) (use "3.prems" in auto)
  then show ?case using a v hs by (auto split: if_splits)
qed

text \<open>
  Claim C8. \<open>to_representation\<close> of a schema fetches each bound field's attribute from
  the instance; a falsy attribute (\<open>0\<close>, the empty string, \<open>None\<close>, \<open>False\<close>) is emitted as
  it is, without the field's render step, and a truthy attribute goes through the render
  step. The entry under a field's name is stated for a name that no other field object
  of the schema carries. The call succeeds as soon as every attribute is fetched and
  every truthy attribute renders: rendering of a falsy attribute is never asked for.
\<close>

theorem Serializer_to_representation_short_circuit:
  "((n, Some r) \<in> set (bound_fields (serializer_objs h self))
      \<and> name (field_objs h r) = PStr k
      \<and> (\<forall>n' r'. (n', Some r') \<in> set (bound_fields (serializer_objs h self))
             \<and> name (field_objs h r') = PStr k \<longrightarrow> r' = r)
      \<and> get_attribute (field_objs h r) inst = Inr attribute
      \<and> Serializer_to_representation h self inst = Inr (PDict ret)
    \<longrightarrow> (if py_truthy attribute
         then \<exists>v. to_representation (cls (field_objs h r)) attribute = Inr v
                \<and> py_dict_find ret (PStr k) = Some v
         else py_dict_find ret (PStr k) = Some attribute))
   \<and> ((\<forall>n r. (n, r) \<in> set (bound_fields (serializer_objs h self)) \<longrightarrow>
          (\<exists>r' a. r = Some r' \<and> py_hashable (name (field_objs h r'))
             \<and> get_attribute (field_objs h r') inst = Inr a
             \<and> (py_truthy a \<longrightarrow> (\<exists>v. to_representation (cls (field_objs h r')) a = Inr v))))
       \<longrightarrow> (\<exists>ret. Serializer_to_representation h self inst = Inr (PDict ret)))"
proof (intro conjI impI)
  assume a: "(n, Some r) \<in> set (bound_fields (serializer_objs h self))
      \<and> name (field_objs h r) = PStr k
      \<and> (\<forall>n' r'. (n', Some r') \<in> set (bound_fields (serializer_objs h self))
             \<and> name (field_objs h r') = PStr k \<longrightarrow> r' = r)
      \<and> get_attribute (field_objs h r) inst = Inr attribute
      \<and> Serializer_to_representation h self inst = Inr (PDict ret)"
  then have loop: "to_representation_loop h (bound_fields (serializer_objs h self)) inst [] = Inr ret"
    by (auto simp: Serializer_to_representation_def map_sum_def split: sum.splits)
  have nm: "name (field_objs h r) = PStr k" using a by simp
  have uniq: "\<And>n' r'. (n', Some r') \<in> set (bound_fields (serializer_objs h self)) \<Longrightarrow>
      name (field_objs h r') = PStr k \<Longrightarrow> r' = r"
    using a by blast
  have mem: "(\<exists>n. (n, Some r) \<in> set (bound_fields (serializer_objs h self))) \<or>
      (\<exists>v. py_dict_find [] (PStr k) = Some v \<and> rendered (field_objs h r) inst v)"
    using a by blast
  have "\<exists>v. py_dict_find ret (PStr k) = Some v \<and> rendered (field_objs h r) inst v"
    by (rule to_representation_loop_entry [OF loop nm uniq mem])
  then obtain v where fv: "py_dict_find ret (PStr k) = Some v"
    and rv: "rendered (field_objs h r) inst v"
    by blast
  have ga: "get_attribute (field_objs h r) inst = Inr attribute" using a by simp
  show "if py_truthy attribute
         then \<exists>v. to_representation (cls (field_objs h r)) attribute = Inr v
                \<and> py_dict_find ret (PStr k) = Some v
         else py_dict_find ret (PStr k) = Some attribute"
  proof (cases "py_truthy attribute")
    case True
    then have "to_representation (cls (field_objs h r)) attribute = Inr v"
      using rv ga by (simp add: rendered_def)
    then show ?thesis using True fv by simp
  next
    case False
    then have "v = attribute" using rv ga by (simp add: rendered_def)
    then show ?thesis using False fv by simp
  qed
next
  assume a: "\<forall>n r. (n, r) \<in> set (bound_fields (serializer_objs h self)) \<longrightarrow>
          (\<exists>r' a. r = Some r' \<and> py_hashable (name (field_objs h r'))
             \<and> get_attribute (field_objs h r') inst = Inr a
             \<and> (py_truthy a \<longrightarrow> (\<exists>v. to_representation (cls (field_objs h r')) a = Inr v)))"
  have "\<exists>ret. to_representation_loop h (bound_fields (serializer_objs h self)) inst [] = Inr ret"
  proof (rule to_representation_loop_total)
    fix n r assume "(n, r) \<in> set (bound_fields (serializer_objs h self))"
    with a obtain r' a' where r: "r = Some r'" and hs: "py_hashable (name (field_objs h r'))"
      and ga: "get_attribute (field_objs h r') inst = Inr a'"
      and tr: "py_truthy a' \<longrightarrow> (\<exists>v. to_representation (cls (field_objs h r')) a' = Inr v)"
      by blast
    show "\<exists>r' v. r = Some r' \<and> py_hashable (name (field_objs h r')) \<and>
            rendered (field_objs h r') inst v"
      using r hs ga tr by (cases "py_truthy a'") (auto simp: rendered_def)
  qed
  then show "\<exists>ret. Serializer_to_representation h self inst = Inr (PDict ret)"
    by (auto simp: Serializer_to_representation_def)
qed

theorem Serializer_to_representation_short_circuit_witness:
  "\<exists>h1 ret.
     Serializer_init schema_x_name None default_kwargs example_store = Inr (0, h1)
     \<and> Serializer_to_representation h1 0
          (Some (Prim (PDict [(PStr ''x'', PStr ''42''), (PStr ''name'', PInt 0)]))) = Inr (PDict ret)
     \<and> py_dict_find ret (PStr ''name'') = Some (PInt 0)
     \<and> py_dict_find ret (PStr ''x'') = Some (PInt 42)
     \<and> to_representation (CharField (PInt 5)) (PInt 0) = Inr (PStr ''0'')"
proof -
  let ?inst = "Some (Prim (PDict [(PStr ''x'', PStr ''42''), (PStr ''name'', PInt 0)]))"
  obtain h1 where init: "Serializer_init schema_x_name None default_kwargs example_store = Inr (0, h1)"
    and bf: "bound_fields (serializer_objs h1 0) = [(''x'', Some 0), (''name'', Some (Suc 0))]"
    and f0: "field_objs h1 0 =
        (Field_init IntegerField default_kwargs)\<lparr>parent := Some 0, name := PStr ''x''\<rparr>"
    and f1: "field_objs h1 (Suc 0) =
        (CharField_init (PInt 5) default_kwargs)\<lparr>parent := Some 0, name := PStr ''name''\<rparr>"
    by (simp add: Serializer_init_def get_fields_def build_field_def bind_def update_field_def
      update_serializer_def get_writable_fields_def Let_def schema_x_name_def example_store_def
      Field_init_def CharField_init_def default_kwargs_def blank_serializer_def)
  have i: "int_of_string ''42'' = Some 42"
    by (simp add: int_of_string_def strip_def is_space_def digit_of_def)
  have g0: "get_attribute (field_objs h1 0) ?inst = Inr (PStr ''42'')"
    and g1: "get_attribute (field_objs h1 (Suc 0)) ?inst = Inr (PInt 0)"
    by (simp_all add: f0 f1 get_attribute_def py_dict_get_def py_dict_get_default_def
        Field_init_def CharField_init_def default_kwargs_def)
  have n0: "name (field_objs h1 0) = PStr ''x''" and n1: "name (field_objs h1 (Suc 0)) = PStr ''name''"
    and c0: "cls (field_objs h1 0) = IntegerField" and c1: "cls (field_objs h1 (Suc 0)) = CharField (PInt 5)"
    by (simp_all add: f0 f1 Field_init_def CharField_init_def default_kwargs_def)
  have t0: "to_representation IntegerField (PStr ''42'') = Inr (PInt 42)"
    by (simp add: i)
  have total: "\<exists>ret. Serializer_to_representation h1 0 ?inst = Inr (PDict ret)"
    using Serializer_to_representation_short_circuit [of _ _ h1 0 _ ?inst, THEN conjunct2] g0 g1 t0
    by (simp add: bf n0 n1 c0 c1 del: to_representation.simps)
  then obtain ret where ret: "Serializer_to_representation h1 0 ?inst = Inr (PDict ret)"
    by blast
  have e1: "py_dict_find ret (PStr ''name'') = Some (PInt 0)"
  proof -
    have hyp: "(''name'', Some (Suc 0)) \<in> set (bound_fields (serializer_objs h1 0))
        \<and> name (field_objs h1 (Suc 0)) = PStr ''name''
        \<and> (\<forall>n' r'. (n', Some r') \<in> set (bound_fields (serializer_objs h1 0))
               \<and> name (field_objs h1 r') = PStr ''name'' \<longrightarrow> r' = Suc 0)
        \<and> get_attribute (field_objs h1 (Suc 0)) ?inst = Inr (PInt 0)
        \<and> Serializer_to_representation h1 0 ?inst = Inr (PDict ret)"
      using bf n0 n1 g1 ret by auto
    from Serializer_to_representation_short_circuit [THEN conjunct1, rule_format, OF hyp]
    show ?thesis by simp
  qed
  have e0: "py_dict_find ret (PStr ''x'') = Some (PInt 42)"
  proof -
    have hyp: "(''x'', Some 0) \<in> set (bound_fields (serializer_objs h1 0))
        \<and> name (field_objs h1 0) = PStr ''x''
        \<and> (\<forall>n' r'. (n', Some r') \<in> set (bound_fields (serializer_objs h1 0))
               \<and> name (field_objs h1 r') = PStr ''x'' \<longrightarrow> r' = 0)
        \<and> get_attribute (field_objs h1 0) ?inst = Inr (PStr ''42'')
        \<and> Serializer_to_representation h1 0 ?inst = Inr (PDict ret)"
      using bf n0 n1 g0 ret by auto
    from Serializer_to_representation_short_circuit [THEN conjunct1, rule_format, OF hyp]
    show ?thesis by (simp add: c0 t0 del: to_representation.simps)
  qed
  have s: "to_representation (CharField (PInt 5)) (PInt 0) = Inr (PStr ''0'')"
    by (simp add: py_str_def string_of_int_def)
  show ?thesis using init ret e1 e0 s by blast
qed

end
